theory Spec2Isabelle
  imports Main
begin

section \<open>Strings\<close>

text \<open>
  Python strings are modelled as \<open>string\<close> (lists of 8-bit characters): the commands,
  paths and tool outputs handled here are ASCII.
\<close>

definition digit_char :: "nat \<Rightarrow> char" where
  "digit_char d = ''0123456789'' ! d"

text \<open>\<open>"{}".format(n)\<close> for a non-negative integer: its decimal digits.\<close>

function str_of_nat :: "nat \<Rightarrow> string" where
  "str_of_nat n =
     (if n < 10 then [digit_char n] else str_of_nat (n div 10) @ [digit_char (n mod 10)])"
  by pat_completeness auto
termination
  by (relation "measure id") auto

declare str_of_nat.simps [simp del]

text \<open>\<open>s.split(":")\<close>: every separator cuts; the result is never empty.\<close>

fun split_str :: "char \<Rightarrow> string \<Rightarrow> string list" where
  "split_str sep [] = [[]]"
| "split_str sep (c # cs) =
     (if c = sep then [] # split_str sep cs
      else (case split_str sep cs of
              [] \<Rightarrow> [[c]]
            | w # ws \<Rightarrow> (c # w) # ws))"

text \<open>\<open>sep.join(xs)\<close>.\<close>

fun join_str :: "string \<Rightarrow> string list \<Rightarrow> string" where
  "join_str sep [] = []"
| "join_str sep [x] = x"
| "join_str sep (x # y # ys) = x @ sep @ join_str sep (y # ys)"

subsection \<open>The pattern \<open>(\d+\.\d+\.\d+\.\d+)\<close>\<close>

text \<open>
  \<open>\d\<close>: a decimal digit. (On a Python \<open>str\<close> the class also holds the digits of other
  scripts; tool output is ASCII here.)
\<close>

definition is_digit :: "char \<Rightarrow> bool" where
  "is_digit c = (c \<in> set ''0123456789'')"

text \<open>
  \<open>\d+\<close> at the head of a string. The quantifier is greedy, and in this pattern a
  shorter run can never help: what follows a shorter run is a digit, where the pattern
  wants a dot (or, for the last group, nothing at all). So the only run the matcher ever
  settles on is the longest one.
\<close>

definition digits1 :: "string \<Rightarrow> (string \<times> string) option" where
  "digits1 s =
     (if takeWhile is_digit s = [] then None
      else Some (takeWhile is_digit s, dropWhile is_digit s))"

definition dot1 :: "string \<Rightarrow> string option" where
  "dot1 s = (case s of [] \<Rightarrow> None | c # cs \<Rightarrow> if c = CHR ''.'' then Some cs else None)"

text \<open>A match of the whole pattern at the head of a string: the matched text and the rest.\<close>

definition match_ipv4 :: "string \<Rightarrow> (string \<times> string) option" where
  "match_ipv4 s =
     (case digits1 s of None \<Rightarrow> None | Some (a, s1) \<Rightarrow>
     (case dot1 s1 of None \<Rightarrow> None | Some s2 \<Rightarrow>
     (case digits1 s2 of None \<Rightarrow> None | Some (b, s3) \<Rightarrow>
     (case dot1 s3 of None \<Rightarrow> None | Some s4 \<Rightarrow>
     (case digits1 s4 of None \<Rightarrow> None | Some (c, s5) \<Rightarrow>
     (case dot1 s5 of None \<Rightarrow> None | Some s6 \<Rightarrow>
     (case digits1 s6 of None \<Rightarrow> None | Some (d, s7) \<Rightarrow>
        Some (a @ ''.'' @ b @ ''.'' @ c @ ''.'' @ d, s7))))))))"

lemma digits1_shorter: "digits1 s = Some (a, r) \<Longrightarrow> length r < length s"
proof -
  assume h: "digits1 s = Some (a, r)"
  then have ne: "takeWhile is_digit s \<noteq> []" and r: "r = dropWhile is_digit s"
    by (auto simp: digits1_def split: if_splits)
  have "length (takeWhile is_digit s) + length (dropWhile is_digit s) = length s"
    by (metis length_append takeWhile_dropWhile_id)
  with ne r show ?thesis
    by (cases "takeWhile is_digit s") auto
qed

lemma dot1_shorter: "dot1 s = Some r \<Longrightarrow> length r < length s"
  by (auto simp: dot1_def split: list.splits if_splits)

lemma match_ipv4_shorter: "match_ipv4 s = Some (m, r) \<Longrightarrow> length r < length s"
  unfolding match_ipv4_def
  by (auto split: option.splits dest!: digits1_shorter dot1_shorter)

text \<open>
  \<open>re.findall\<close> of the pattern: scan from the left, take a match where one starts,
  go on behind it; where none starts, move one character on.
\<close>

function findall_ipv4 :: "string \<Rightarrow> string list" where
  "findall_ipv4 [] = []"
| "findall_ipv4 (c # cs) =
     (case match_ipv4 (c # cs) of
        Some (m, rest) \<Rightarrow> m # findall_ipv4 rest
      | None \<Rightarrow> findall_ipv4 cs)"
  by pat_completeness auto
termination
  by (relation "measure length") (auto dest: match_ipv4_shorter)

section \<open>Errors, events and the run of a session\<close>

datatype error =
    Fail string
  | CalledProcessError "string list"
  | RuntimeError string
  | KeyError string
  | UnboundLocalError string
  | RequireFailed "string list" string
  | SudoFailed
  | LaunchFailed string
  | WaitFailed
  | ExposeFailed
  | SshuttleFailed

datatype cleanup = RunCheckCall "string list" | TerminateIfAlive

datatype event =
    SpanStart
  | SpanEnd
  | Launch string "string list"
  | FindFreePort nat
  | Depend "string list"
  | GetOutput "string list"
  | Require "string list"
  | RequireSudo
  | CheckCall "string list"
  | Sleep nat
  | AddCleanup string cleanup
  | SshWait nat
  | ExposeLocalServices nat "(nat \<times> nat) list"
  | LaunchLocalServer nat
  | TrackBackground nat
  | MakeTemp string
  | ListDir string
  | Copy string string
  | CopyIOError string
  | Chmod string nat
  | WriteFile string string
  | ConnectSshuttle
  | Spawn "string list"

text \<open>
  What changes while a session is set up: the clock (in milliseconds), and how many
  ports and how many \<open>check_call\<close>s have been asked for so far.
\<close>

record state =
  clock :: nat
  ports_given :: nat
  checks_done :: nat

type_synonym 'a outcome = "(error + 'a) \<times> event list \<times> state"
type_synonym 'a action = "state \<Rightarrow> 'a outcome"

definition result :: "'a outcome \<Rightarrow> error + 'a" where
  "result r = fst r"

definition trace :: "'a outcome \<Rightarrow> event list" where
  "trace r = fst (snd r)"

definition final :: "'a outcome \<Rightarrow> state" where
  "final r = snd (snd r)"

definition ret :: "'a \<Rightarrow> 'a action" where
  "ret x s = (Inr x, [], s)"

definition raise :: "error \<Rightarrow> 'a action" where
  "raise e s = (Inl e, [], s)"

definition emit :: "event \<Rightarrow> unit action" where
  "emit e s = (Inr (), [e], s)"

text \<open>Sequencing: an exception ends the run, keeping what has happened so far.\<close>

definition bnd :: "'a action \<Rightarrow> ('a \<Rightarrow> 'b action) \<Rightarrow> 'b action" where
  "bnd m f s =
     (case m s of
        (Inl e, tr, s') \<Rightarrow> (Inl e, tr, s')
      | (Inr x, tr, s') \<Rightarrow> (case f x s' of (r, tr', s'') \<Rightarrow> (r, tr @ tr', s'')))"

definition andThen :: "unit action \<Rightarrow> 'b action \<Rightarrow> 'b action" where
  "andThen m k = bnd m (\<lambda>_. k)"

section \<open>The runner and the machine it runs on\<close>

text \<open>
  \<open>Runner\<close>, \<open>SSH\<close>, \<open>find_free_port\<close>, \<open>expose_local_services\<close>,
  \<open>launch_local_server\<close>, \<open>connect_sshuttle\<close> and \<open>MAC_LOOPBACK_IP\<close> are imported by the
  two source files and defined elsewhere. What they answer is taken as a parameter: one
  record holds the runner's attributes together with the answers of the machine.
  \<^item> \<open>platform\<close>, \<open>temp\<close>: \<open>runner.platform\<close>, \<open>runner.temp\<close>; \<open>logfile\<close>: the name of
    \<open>runner.output.logfile\<close>, or \<open>None\<close> when it is \<open>sys.stdout\<close>; \<open>environ\<close>:
    \<open>os.environ\<close>.
  \<^item> \<open>installed\<close>: the tools found on the search path; \<open>tool_output\<close>: what a command
    prints (\<open>None\<close>: it exits with an error); \<open>check_outcome\<close>: whether the \<open>k\<close>-th checked
    command of the session succeeds, and the milliseconds it takes.
  \<^item> \<open>kubectl\<close>, \<open>bg_command\<close>: the command lines \<open>runner.kubectl(...)\<close> and
    \<open>ssh.bg_command(...)\<close> build; \<open>free_port\<close>: the port the \<open>k\<close>-th call of
    \<open>find_free_port\<close> returns; \<open>temp_dir\<close>: the directory \<open>runner.make_temp\<close> makes.
  \<^item> \<open>sudo_available\<close>, \<open>becomes_ready\<close>, \<open>ssh_live\<close>, \<open>expose_ok\<close>, \<open>sshuttle_ok\<close>:
    whether the collaborator's step goes through.
  \<^item> \<open>dir_entries\<close>, \<open>copy_ok\<close>: \<open>os.listdir\<close>, and whether \<open>shutil.copy\<close> of a file goes
    through (it raises \<open>IOError\<close> otherwise); \<open>set_order\<close>: the order in which Python
    iterates over the set \<open>protected\<close>.
  Writing a file, \<open>chmod\<close>, \<open>make_temp\<close>, \<open>listdir\<close>, \<open>Popen\<close>, \<open>find_free_port\<close>,
  \<open>launch_local_server\<close> and \<open>add_cleanup\<close> are taken to go through. An event records a
  call without the environment passed to it.
\<close>

record runner =
  platform :: string
  temp :: string
  logfile :: "string option"
  environ :: "string \<rightharpoonup> string"
  installed :: "string \<Rightarrow> bool"
  kubectl :: "string list \<Rightarrow> string list"
  bg_command :: "nat \<Rightarrow> string list \<Rightarrow> string list"
  MAC_LOOPBACK_IP :: string
  free_port :: "nat \<Rightarrow> nat"
  tool_output :: "string list \<Rightarrow> string option"
  check_outcome :: "nat \<Rightarrow> string list \<Rightarrow> bool \<times> nat"
  sudo_available :: bool
  becomes_ready :: "string \<Rightarrow> bool"
  ssh_live :: bool
  expose_ok :: bool
  sshuttle_ok :: bool
  temp_dir :: "string \<Rightarrow> string"
  dir_entries :: "string \<Rightarrow> string list"
  copy_ok :: "string \<Rightarrow> bool"
  set_order :: "string list"

record remote_info =
  pod_name :: string
  container_name :: string

record cmdline_args =
  "method" :: string
  local_to_remote :: "(nat \<times> nat) list"
  run :: "string list option"
  context_name :: string

record SSH =
  port :: nat

record process =
  proc_args :: "string list"
  proc_env :: "string \<rightharpoonup> string"

subsection \<open>Calls into the collaborators\<close>

text \<open>
  Modelled from the spec: \<open>Runner.launch\<close> is not among the source files. "Every
  external-process launch is a scheduling point where control yields to the OS until the
  child's own readiness signal is observed or a timeout fires", and a step that fails
  fails the setup: \<open>launch\<close> returns once the child named \<open>name\<close> has been seen ready
  (\<open>becomes_ready\<close>), and raises otherwise.
\<close>

definition launch :: "runner \<Rightarrow> string \<Rightarrow> string list \<Rightarrow> unit action" where
  "launch r name cmd =
     andThen (emit (Launch name cmd))
       (if becomes_ready r name then ret () else raise (LaunchFailed name))"

text \<open>\<open>find_free_port()\<close>: the machine hands out the next port of its own choosing.\<close>

definition find_free_port :: "runner \<Rightarrow> nat action" where
  "find_free_port r s =
     (Inr (free_port r (ports_given s)),
      [FindFreePort (free_port r (ports_given s))],
      s\<lparr>ports_given := Suc (ports_given s)\<rparr>)"

text \<open>
  Modelled from the spec: the dependency checker, "given a set of candidate tool names,
  returns which are absent"; \<open>require\<close> fails when one of its tools is absent, and
  \<open>require_sudo\<close> when elevation is unavailable.
\<close>

definition depend :: "runner \<Rightarrow> string list \<Rightarrow> string list action" where
  "depend r commands =
     andThen (emit (Depend commands)) (ret (filter (\<lambda>c. \<not> installed r c) commands))"

definition require :: "runner \<Rightarrow> string list \<Rightarrow> string \<Rightarrow> unit action" where
  "require r commands message =
     andThen (emit (Require commands))
       (if filter (\<lambda>c. \<not> installed r c) commands = [] then ret ()
        else raise (RequireFailed (filter (\<lambda>c. \<not> installed r c) commands) message))"

definition require_sudo :: "runner \<Rightarrow> unit action" where
  "require_sudo r =
     andThen (emit RequireSudo) (if sudo_available r then ret () else raise SudoFailed)"

text \<open>
  \<open>runner.get_output(cmd)\<close>: what the command prints, or \<open>CalledProcessError\<close> when it
  exits with a non-zero status.
\<close>

definition get_output :: "runner \<Rightarrow> string list \<Rightarrow> string action" where
  "get_output r cmd =
     andThen (emit (GetOutput cmd))
       (case tool_output r cmd of
          None \<Rightarrow> raise (CalledProcessError cmd)
        | Some out \<Rightarrow> ret out)"

text \<open>
  \<open>runner.check_call(cmd)\<close>: runs the command to its end, which takes time, and raises
  \<open>CalledProcessError\<close> when it exits with a non-zero status. The \<open>k\<close>-th call of a
  session has the outcome and the duration \<open>check_outcome r k cmd\<close>.
\<close>

definition check_call :: "runner \<Rightarrow> string list \<Rightarrow> unit action" where
  "check_call r cmd s =
     (if fst (check_outcome r (checks_done s) cmd) then Inr () else Inl (CalledProcessError cmd),
      [CheckCall cmd],
      s\<lparr>clock := clock s + snd (check_outcome r (checks_done s) cmd),
        checks_done := Suc (checks_done s)\<rparr>)"

definition add_cleanup :: "string \<Rightarrow> cleanup \<Rightarrow> unit action" where
  "add_cleanup name action = emit (AddCleanup name action)"

text \<open>
  Modelled from the spec: \<open>SSH.wait\<close> "blocks until the session's control channel is
  confirmed live; fails if the remote side rejects the connection". The constructor
  \<open>SSH(runner, port)\<close> only records the port.
\<close>

definition wait :: "runner \<Rightarrow> SSH \<Rightarrow> unit action" where
  "wait r ssh =
     andThen (emit (SshWait (port ssh))) (if ssh_live r then ret () else raise WaitFailed)"

definition expose_local_services :: "runner \<Rightarrow> SSH \<Rightarrow> (nat \<times> nat) list \<Rightarrow> unit action" where
  "expose_local_services r ssh port_numbers =
     andThen (emit (ExposeLocalServices (port ssh) port_numbers))
       (if expose_ok r then ret () else raise ExposeFailed)"

text \<open>\<open>runner.track_background(launch_local_server(port, runner.output))\<close>.\<close>

definition launch_local_server :: "nat \<Rightarrow> unit action" where
  "launch_local_server p = andThen (emit (LaunchLocalServer p)) (emit (TrackBackground p))"

section \<open>\<open>telepresence/connect/__init__.py\<close>\<close>

text \<open>Lines 64 to 87 of \<open>connect\<close>: the address of \<open>docker0\<close> on Linux.\<close>

definition docker_interface_linux :: "runner \<Rightarrow> string action" where
  "docker_interface_linux r =
     bnd (depend r [''ip'', ''ifconfig'']) (\<lambda>missing.
     bnd (if ''ip'' \<notin> set missing then
            bnd (get_output r [''ip'', ''addr'', ''show'', ''dev'', ''docker0''])
              (\<lambda>out. ret (findall_ipv4 out))
          else if ''ifconfig'' \<notin> set missing then
            bnd (get_output r [''ifconfig'', ''docker0''])
              (\<lambda>out. ret (findall_ipv4 out))
          else
            raise (Fail (''At least one of '' @ [CHR 0x22] @ ''ip addr'' @ [CHR 0x22] @ '' or ''
                         @ [CHR 0x22] @ ''ifconfig'' @ [CHR 0x22] @ '' must be ''
                         @ ''available to retrieve Docker interface info.'')))
       (\<lambda>docker_interfaces.
          if length docker_interfaces = 0 then raise (Fail ''No interface for docker found'')
          else ret (docker_interfaces ! 0)))"

text \<open>Lines 90 to 107 of \<open>connect\<close>: the loopback alias on every other platform.\<close>

definition docker_interface_other :: "runner \<Rightarrow> string action" where
  "docker_interface_other r =
     andThen (require r [''ifconfig''] ''Needed to manage networking with the container method.'')
    (andThen (require_sudo r)
    (andThen (check_call r [''sudo'', ''ifconfig'', ''lo0'', ''alias'', MAC_LOOPBACK_IP r])
    (andThen (add_cleanup ''Mac Loopback''
                (RunCheckCall [''sudo'', ''ifconfig'', ''lo0'', ''-alias'', MAC_LOOPBACK_IP r]))
             (ret (MAC_LOOPBACK_IP r)))))"

text \<open>Lines 56 to 120 of \<open>connect\<close>: the relay in front of the SSH port, container method only.\<close>

definition socat_for_docker :: "runner \<Rightarrow> cmdline_args \<Rightarrow> SSH \<Rightarrow> unit action" where
  "socat_for_docker r cmdline ssh =
     (if method cmdline = ''container'' then
        bnd (if platform r = ''linux'' then docker_interface_linux r
             else docker_interface_other r) (\<lambda>docker_interface.
        andThen (require r [''socat'']
                   ''Needed to manage networking with the container method.'')
                (launch r ''socat for docker''
                   [''socat'',
                    ''TCP4-LISTEN:'' @ str_of_nat (port ssh) @ '',bind=''
                      @ docker_interface @ '',reuseaddr,fork'',
                    ''TCP4:127.0.0.1:'' @ str_of_nat (port ssh)]))
      else ret ())"

definition connect :: "runner \<Rightarrow> remote_info \<Rightarrow> cmdline_args \<Rightarrow> (nat \<times> SSH) action" where
  "connect r remote cmdline =
     andThen (emit SpanStart)
    (andThen (launch r ''kubectl logs''
                (kubectl r [''logs'', ''-f'', pod_name remote, ''--container'',
                            container_name remote]))
    (bnd (find_free_port r) (\<lambda>p. let ssh = \<lparr>port = p\<rparr> in
     andThen (launch r ''kubectl port-forward''
                (kubectl r [''port-forward'', pod_name remote,
                            str_of_nat (port ssh) @ '':8022'']))
    (andThen (socat_for_docker r cmdline ssh)
    (andThen (wait r ssh)
    (andThen (if method cmdline \<noteq> ''container'' then
                expose_local_services r ssh (local_to_remote cmdline)
              else ret ())
    (bnd (find_free_port r) (\<lambda>socks_port.
     bnd (find_free_port r) (\<lambda>local_server_port.
     andThen (launch_local_server local_server_port)
    (andThen (launch r ''SSH port forward (socks and proxy poll)''
                (bg_command r (port ssh)
                   [''-L127.0.0.1:'' @ str_of_nat socks_port @ '':127.0.0.1:9050'',
                    ''-R9055:127.0.0.1:'' @ str_of_nat local_server_port]))
    (andThen (emit SpanEnd)
             (ret (socks_port, ssh)))))))))))))"

section \<open>\<open>telepresence/local.py\<close>\<close>

text \<open>\<open>runner.make_temp(name)\<close>, \<open>os.listdir\<close>, \<open>time()\<close> and \<open>sleep\<close>.\<close>

definition make_temp :: "runner \<Rightarrow> string \<Rightarrow> string action" where
  "make_temp r name = andThen (emit (MakeTemp name)) (ret (temp_dir r name))"

definition listdir :: "runner \<Rightarrow> string \<Rightarrow> string list action" where
  "listdir r directory = andThen (emit (ListDir directory)) (ret (dir_entries r directory))"

definition time_now :: "nat action" where
  "time_now s = (Inr (clock s), [], s)"

definition sleep :: "nat \<Rightarrow> unit action" where
  "sleep ms s = (Inr (), [Sleep ms], s\<lparr>clock := clock s + ms\<rparr>)"

subsection \<open>\<open>sip_workaround\<close>\<close>

definition protected :: "string set" where
  "protected = {''/bin'', ''/sbin'', ''/usr/sbin'', ''/usr/bin''}"

text \<open>
  The inner loop, over the entries of one directory: \<open>copy\<close>, and \<open>chmod\<close> to
  \<open>0o775\<close> unless the copy raised \<open>IOError\<close>.
\<close>

fun copy_entries :: "runner \<Rightarrow> string \<Rightarrow> string \<Rightarrow> string list \<Rightarrow> unit action" where
  "copy_entries r bin_dir directory [] = ret ()"
| "copy_entries r bin_dir directory (file # files) =
     andThen (if copy_ok r (directory @ ''/'' @ file) then
                andThen (emit (Copy (directory @ ''/'' @ file) bin_dir))
                        (emit (Chmod (bin_dir @ ''/'' @ file) (7 * 64 + 7 * 8 + 5)))
              else emit (CopyIOError (directory @ ''/'' @ file)))
             (copy_entries r bin_dir directory files)"

text \<open>
  The outer loop, over the set \<open>protected\<close>. Python fixes no order for the elements of a
  set: the order met is \<open>set_order r\<close>, some arrangement of the four directories.
\<close>

fun copy_directories :: "runner \<Rightarrow> string \<Rightarrow> string list \<Rightarrow> unit action" where
  "copy_directories r bin_dir [] = ret ()"
| "copy_directories r bin_dir (directory # directories) =
     bnd (listdir r directory) (\<lambda>files.
     andThen (copy_entries r bin_dir directory files)
             (copy_directories r bin_dir directories))"

definition sip_workaround :: "runner \<Rightarrow> string \<Rightarrow> string \<Rightarrow> string action" where
  "sip_workaround r existing_paths unsupported_tools_path =
     (let paths = filter (\<lambda>p. p \<notin> protected) (split_str CHR '':'' existing_paths) in
      bnd (make_temp r ''sip_bin'') (\<lambda>bin_dir.
      let paths = bin_dir # paths in
      andThen (copy_directories r bin_dir (set_order r))
        (let paths = [unsupported_tools_path] @ paths in
         ret (join_str '':'' paths))))"

subsection \<open>\<open>get_unsupported_tools\<close>\<close>

definition NICE_FAILURE :: "string \<Rightarrow> string" where
  "NICE_FAILURE command =
     ''#!/bin/sh\<newline>'' @
     ''echo '' @ command @ '' is not supported under Telepresence.\<newline>'' @
     ''echo See https://telepresence.io/reference/limitations.html for details.\<newline>'' @
     ''exit 55\<newline>''"

fun write_tools :: "string \<Rightarrow> string list \<Rightarrow> unit action" where
  "write_tools unsupported_bin [] = ret ()"
| "write_tools unsupported_bin (command # commands) =
     andThen (emit (WriteFile (unsupported_bin @ ''/'' @ command) (NICE_FAILURE command)))
    (andThen (emit (Chmod (unsupported_bin @ ''/'' @ command) (7 * 64 + 5 * 8 + 5)))
             (write_tools unsupported_bin commands))"

definition get_unsupported_tools :: "runner \<Rightarrow> bool \<Rightarrow> string action" where
  "get_unsupported_tools r dns_supported =
     (let commands = [''ping'', ''traceroute''];
          commands = (if \<not> dns_supported then commands @ [''nslookup'', ''dig'', ''host'']
                      else commands) in
      bnd (make_temp r ''unsup_bin'') (\<lambda>unsupported_bin.
      andThen (write_tools unsupported_bin commands)
              (ret unsupported_bin)))"

subsection \<open>\<open>setup_torsocks\<close>\<close>

definition TORSOCKS_CONFIG :: "nat \<Rightarrow> string" where
  "TORSOCKS_CONFIG socks_port =
     ''\<newline># Allow process to listen on ports:\<newline>'' @
     ''AllowInbound 1\<newline>'' @
     ''# Allow process to connect to localhost:\<newline>'' @
     ''AllowOutboundLocalhost 1\<newline>'' @
     ''# Connect to custom port for SOCKS server:\<newline>'' @
     ''TorPort '' @ str_of_nat socks_port @ ''\<newline>''"

definition torsocks_probe :: "string list" where
  "torsocks_probe =
     [''torsocks'', ''python3'', ''-c'',
      ''import socket; socket.socket().connect(('' @ [CHR 0x27] @ ''google.com''
        @ [CHR 0x27] @ '', 80))'']"

text \<open>
  Lines 117 to 128, the loop \<open>while time() - start < 10\<close>. The clock counts milliseconds,
  so ten seconds are 10000 and \<open>sleep(0.1)\<close> is 100. On natural numbers the difference
  stops at zero, which leaves the comparison with 10000 as it is on Python's numbers.
  Each probe takes the time the machine says it takes; a sleep that overruns counts as
  part of the probe before it.
\<close>

function wait_for_socks :: "runner \<Rightarrow> nat \<Rightarrow> unit action" where
  "wait_for_socks r start s =
     (if clock s - start < 10000 then
        (let attempt = check_call r torsocks_probe s in
         case result attempt of
           Inr u \<Rightarrow> attempt
         | Inl e \<Rightarrow>
            (case e of
               CalledProcessError c \<Rightarrow>
                 (let nap = sleep 100 (final attempt);
                      rest = wait_for_socks r start (final nap)
                  in (result rest, trace attempt @ trace nap @ trace rest, final rest))
             | _ \<Rightarrow> attempt))
      else raise (RuntimeError ''SOCKS network proxying failed to start...'') s)"
  by pat_completeness auto
termination
  by (relation "measure (\<lambda>(r, start, s). start + 10000 - clock s)")
     (auto simp: check_call_def sleep_def final_def)

declare wait_for_socks.simps [simp del]

definition setup_torsocks ::
  "runner \<Rightarrow> (string \<rightharpoonup> string) \<Rightarrow> nat \<Rightarrow> string \<Rightarrow> (string \<rightharpoonup> string) action" where
  "setup_torsocks r env socks_port unsupported_tools_path =
     andThen (emit (WriteFile (temp r @ ''/tel_torsocks.conf'') (TORSOCKS_CONFIG socks_port)))
       (let env = env(''TORSOCKS_CONF_FILE'' \<mapsto> temp r @ ''/tel_torsocks.conf'');
            env = (case logfile r of
                     None \<Rightarrow> env
                   | Some name \<Rightarrow> env(''TORSOCKS_LOG_FILE_PATH'' \<mapsto> name)) in
        bnd (if platform r = ''darwin'' then
               (case env ''PATH'' of
                  None \<Rightarrow> raise (KeyError ''PATH'')
                | Some existing_paths \<Rightarrow>
                    bnd (sip_workaround r existing_paths unsupported_tools_path)
                      (\<lambda>new_path. ret (env(''PATH'' \<mapsto> new_path))))
             else ret env) (\<lambda>env.
        bnd time_now (\<lambda>start.
        andThen (wait_for_socks r start) (ret env))))"

subsection \<open>\<open>run_local_command\<close>\<close>

definition Popen :: "string list \<Rightarrow> (string \<rightharpoonup> string) \<Rightarrow> process action" where
  "Popen cmd env = andThen (emit (Spawn cmd)) (ret \<lparr>proc_args = cmd, proc_env = env\<rparr>)"

definition connect_sshuttle :: "runner \<Rightarrow> unit action" where
  "connect_sshuttle r =
     andThen (emit ConnectSshuttle) (if sshuttle_ok r then ret () else raise SshuttleFailed)"

text \<open>
  The variable \<open>p\<close> is bound in two of the three branches on the method; it is
  \<open>None\<close> here where Python has left it unbound, and reading it then raises
  \<open>UnboundLocalError\<close>. Defining \<open>terminate_if_alive\<close> does not read it.
\<close>

definition run_local_command ::
  "runner \<Rightarrow> remote_info \<Rightarrow> cmdline_args \<Rightarrow> (string \<rightharpoonup> string) \<Rightarrow> nat \<Rightarrow> SSH
     \<Rightarrow> process action" where
  "run_local_command r remote args env_overrides socks_port ssh =
     (let env = environ r ++ env_overrides;
          env = env(''PROMPT_COMMAND'' \<mapsto>
                  ''PS1='' @ [CHR 0x22] @ ''@'' @ context_name args @ ''|$PS1'' @ [CHR 0x22]
                    @ '';unset PROMPT_COMMAND'') in
      bnd (get_unsupported_tools r (method args \<noteq> ''inject-tcp'')) (\<lambda>unsupported_tools_path.
      bnd (case env ''PATH'' of
             None \<Rightarrow> raise (KeyError ''PATH'')
           | Some path \<Rightarrow> ret (env(''PATH'' \<mapsto> unsupported_tools_path @ '':'' @ path))) (\<lambda>env.
      let command = (case run args of None \<Rightarrow> [''bash'', ''--norc''] | Some c \<Rightarrow> c) in
      bnd (if method args = ''inject-tcp'' then
             bnd (setup_torsocks r env socks_port unsupported_tools_path) (\<lambda>env.
             bnd (Popen (''torsocks'' # command) env) (\<lambda>p. ret (Some p)))
           else if method args = ''vpn-tcp'' then
             andThen (connect_sshuttle r)
               (bnd (Popen command env) (\<lambda>p. ret (Some p)))
           else ret None) (\<lambda>p.
      andThen (add_cleanup ''Terminate local process'' TerminateIfAlive)
        (case p of
           None \<Rightarrow> raise (UnboundLocalError ''p'')
         | Some p \<Rightarrow> ret p)))))"

section \<open>Vocabulary of the claims\<close>

text \<open>
  \<open>preceded_by P Q tr\<close>: in the trace \<open>tr\<close>, no event of kind \<open>Q\<close> happens unless an
  event of kind \<open>P\<close> has happened earlier.
\<close>

fun preceded_by :: "(event \<Rightarrow> bool) \<Rightarrow> (event \<Rightarrow> bool) \<Rightarrow> event list \<Rightarrow> bool" where
  "preceded_by P Q [] = True"
| "preceded_by P Q (e # es) = (P e \<or> (\<not> Q e \<and> preceded_by P Q es))"

definition is_wait :: "event \<Rightarrow> bool" where
  "is_wait e = (case e of SshWait _ \<Rightarrow> True | _ \<Rightarrow> False)"

definition is_forwarding_leg :: "event \<Rightarrow> bool" where
  "is_forwarding_leg e =
     (case e of
        ExposeLocalServices _ _ \<Rightarrow> True
      | Launch name _ \<Rightarrow> name = ''SSH port forward (socks and proxy poll)''
      | _ \<Rightarrow> False)"

definition quiet :: "event list \<Rightarrow> bool" where
  "quiet tr = (\<forall>e\<in>set tr. \<not> is_wait e \<and> \<not> is_forwarding_leg e)"

definition at_least_one_message :: string where
  "at_least_one_message =
     ''At least one of '' @ [CHR 0x22] @ ''ip addr'' @ [CHR 0x22] @ '' or ''
       @ [CHR 0x22] @ ''ifconfig'' @ [CHR 0x22] @ '' must be ''
       @ ''available to retrieve Docker interface info.''"

definition first_token :: "string \<Rightarrow> error + string" where
  "first_token out =
     (case findall_ipv4 out of
        [] \<Rightarrow> Inl (Fail ''No interface for docker found'')
      | a # _ \<Rightarrow> Inr a)"

definition docker0_listing :: "runner \<Rightarrow> string option" where
  "docker0_listing r =
     (if installed r ''ip'' then tool_output r [''ip'', ''addr'', ''show'', ''dev'', ''docker0'']
      else if installed r ''ifconfig'' then tool_output r [''ifconfig'', ''docker0'']
      else None)"

definition is_spawn :: "event \<Rightarrow> bool" where
  "is_spawn e = (case e of Spawn _ \<Rightarrow> True | _ \<Rightarrow> False)"

definition tool_events :: "string \<Rightarrow> string \<Rightarrow> event list" where
  "tool_events unsupported_bin command =
     [WriteFile (unsupported_bin @ ''/'' @ command) (NICE_FAILURE command),
      Chmod (unsupported_bin @ ''/'' @ command) 493]"

definition probe_ok :: "runner \<Rightarrow> nat \<Rightarrow> bool" where
  "probe_ok r k = fst (check_outcome r k torsocks_probe)"

definition probe_time :: "runner \<Rightarrow> nat \<Rightarrow> nat" where
  "probe_time r k = snd (check_outcome r k torsocks_probe)"

text \<open>The \<open>n\<close> probes from the \<open>c\<close>-th on all fail.\<close>

fun fails_from :: "runner \<Rightarrow> nat \<Rightarrow> nat \<Rightarrow> bool" where
  "fails_from r c 0 = True"
| "fails_from r c (Suc n) = (\<not> probe_ok r c \<and> fails_from r (Suc c) n)"

text \<open>The time \<open>n\<close> failed probes from the \<open>c\<close>-th on take, each with the sleep behind it.\<close>

fun spent :: "runner \<Rightarrow> nat \<Rightarrow> nat \<Rightarrow> nat" where
  "spent r c 0 = 0"
| "spent r c (Suc n) = probe_time r c + 100 + spent r (Suc c) n"

definition is_probe :: "event \<Rightarrow> bool" where
  "is_probe e = (e = CheckCall torsocks_probe)"


definition timeout_message :: string where
  "timeout_message = ''SOCKS network proxying failed to start...''"

text \<open>The state after a probe that failed and the sleep behind it.\<close>

definition after_failed_probe :: "runner \<Rightarrow> state \<Rightarrow> state" where
  "after_failed_probe r s =
     s\<lparr>clock := clock s + probe_time r (checks_done s) + 100,
       checks_done := Suc (checks_done s)\<rparr>"


section \<open>A session to run the model on\<close>

definition listing :: string where
  "listing = ''4: docker0: <NO-CARRIER,BROADCAST,MULTICAST,UP> mtu 1500 qdisc noqueue state DOWN\<newline>    link/ether 02:42:1c:3e:5a:7f brd ff:ff:ff:ff:ff:ff\<newline>    inet 172.17.0.1/16 brd 172.17.255.255 scope global docker0\<newline>''"

definition example_runner :: runner where
  "example_runner =
     \<lparr>platform = ''linux'',
      temp = ''/tmp/tel-1'',
      logfile = Some ''/home/dev/telepresence.log'',
      environ = [''PATH'' \<mapsto> ''/usr/local/bin:/usr/bin:/bin''],
      installed = (\<lambda>c. c = ''ip'' \<or> c = ''socat''),
      kubectl = (\<lambda>args. ''kubectl'' # args),
      bg_command = (\<lambda>p args. [''ssh'', ''-N'', ''-p'', str_of_nat p] @ args @ [''telepresence@localhost'']),
      MAC_LOOPBACK_IP = ''198.18.0.254'',
      free_port = (\<lambda>k. 40000 + k),
      tool_output = (\<lambda>cmd. if cmd = [''ip'', ''addr'', ''show'', ''dev'', ''docker0''] then Some listing
                           else if cmd = [''ifconfig'', ''docker0''] then Some ''docker0: flags=4099  mtu 1500''
                           else None),
      check_outcome = (\<lambda>k cmd. (2 \<le> k, 6000)),
      sudo_available = True,
      becomes_ready = (\<lambda>name. True),
      ssh_live = True,
      expose_ok = True,
      sshuttle_ok = True,
      temp_dir = (\<lambda>name. ''/tmp/tel-1/'' @ name),
      dir_entries = (\<lambda>d. if d = ''/bin'' then [''sh'', ''ls''] else if d = ''/usr/bin'' then [''env''] else []),
      copy_ok = (\<lambda>path. path \<noteq> ''/bin/ls''),
      set_order = [''/usr/bin'', ''/bin'', ''/usr/sbin'', ''/sbin'']\<rparr>"

definition example_state :: state where
  "example_state = \<lparr>clock = 0, ports_given = 0, checks_done = 0\<rparr>"

definition example_remote :: remote_info where
  "example_remote = \<lparr>pod_name = ''telepresence-1-abc'', container_name = ''telepresence''\<rparr>"

definition container_args :: cmdline_args where
  "container_args =
     \<lparr>method = ''container'', local_to_remote = [(8080, 80)], run = None,
      context_name = ''minikube''\<rparr>"

definition inject_args :: cmdline_args where
  "inject_args =
     \<lparr>method = ''inject-tcp'', local_to_remote = [(8080, 80)], run = Some [''curl'', ''http://svc''],
      context_name = ''minikube''\<rparr>"

definition quick_runner :: runner where
  "quick_runner = example_runner\<lparr>check_outcome := (\<lambda>k cmd. (2 \<le> k, 50))\<rparr>"

definition dead_runner :: runner where
  "dead_runner = example_runner\<lparr>check_outcome := (\<lambda>k cmd. (False, 6000))\<rparr>"

section \<open>Reading a run\<close>

text \<open>What a sequence of two actions returns, records and leaves behind.\<close>

lemma result_bnd:
  "result (bnd m f s) =
     (case result (m s) of Inl e \<Rightarrow> Inl e | Inr x \<Rightarrow> result (f x (final (m s))))"
  by (auto simp: bnd_def result_def final_def split: prod.splits sum.splits)

lemma trace_bnd:
  "trace (bnd m f s) =
     trace (m s) @ (case result (m s) of Inl e \<Rightarrow> [] | Inr x \<Rightarrow> trace (f x (final (m s))))"
  by (auto simp: bnd_def result_def final_def trace_def split: prod.splits sum.splits)

lemma final_bnd:
  "final (bnd m f s) =
     (case result (m s) of Inl e \<Rightarrow> final (m s) | Inr x \<Rightarrow> final (f x (final (m s))))"
  by (auto simp: bnd_def result_def final_def split: prod.splits sum.splits)

lemma result_andThen:
  "result (andThen m k s) =
     (case result (m s) of Inl e \<Rightarrow> Inl e | Inr x \<Rightarrow> result (k (final (m s))))"
  by (simp add: andThen_def result_bnd)

lemma trace_andThen:
  "trace (andThen m k s) =
     trace (m s) @ (case result (m s) of Inl e \<Rightarrow> [] | Inr x \<Rightarrow> trace (k (final (m s))))"
  by (simp add: andThen_def trace_bnd)

lemma final_andThen:
  "final (andThen m k s) =
     (case result (m s) of Inl e \<Rightarrow> final (m s) | Inr x \<Rightarrow> final (k (final (m s))))"
  by (simp add: andThen_def final_bnd)

lemma run_ret: "result (ret x s) = Inr x" "trace (ret x s) = []" "final (ret x s) = s"
  by (simp_all add: ret_def result_def trace_def final_def)

lemma run_raise: "result (raise e s) = Inl e" "trace (raise e s) = []" "final (raise e s) = s"
  by (simp_all add: raise_def result_def trace_def final_def)

lemma run_emit: "result (emit e s) = Inr ()" "trace (emit e s) = [e]" "final (emit e s) = s"
  by (simp_all add: emit_def result_def trace_def final_def)

lemma run_if:
  "result ((if c then m else k) s) = (if c then result (m s) else result (k s))"
  "trace ((if c then m else k) s) = (if c then trace (m s) else trace (k s))"
  "final ((if c then m else k) s) = (if c then final (m s) else final (k s))"
  by simp_all

lemmas run_seq = result_bnd trace_bnd final_bnd result_andThen trace_andThen final_andThen
  run_ret run_raise run_emit run_if

lemma run_launch:
  "result (launch r name cmd s) =
     (if becomes_ready r name then Inr () else Inl (LaunchFailed name))"
  "trace (launch r name cmd s) = [Launch name cmd]"
  "final (launch r name cmd s) = s"
  by (simp_all add: launch_def run_seq)

lemma run_find_free_port:
  "result (find_free_port r s) = Inr (free_port r (ports_given s))"
  "trace (find_free_port r s) = [FindFreePort (free_port r (ports_given s))]"
  "final (find_free_port r s) = s\<lparr>ports_given := Suc (ports_given s)\<rparr>"
  by (simp_all add: find_free_port_def result_def trace_def final_def)

lemma run_depend:
  "result (depend r cs s) = Inr (filter (\<lambda>c. \<not> installed r c) cs)"
  "trace (depend r cs s) = [Depend cs]"
  "final (depend r cs s) = s"
  by (simp_all add: depend_def run_seq)

lemma run_require:
  "result (require r cs msg s) =
     (if filter (\<lambda>c. \<not> installed r c) cs = [] then Inr ()
      else Inl (RequireFailed (filter (\<lambda>c. \<not> installed r c) cs) msg))"
  "trace (require r cs msg s) = [Require cs]"
  "final (require r cs msg s) = s"
  by (simp_all add: require_def run_seq)

lemma run_require_sudo:
  "result (require_sudo r s) = (if sudo_available r then Inr () else Inl SudoFailed)"
  "trace (require_sudo r s) = [RequireSudo]"
  "final (require_sudo r s) = s"
  by (simp_all add: require_sudo_def run_seq)

lemma run_get_output:
  "result (get_output r cmd s) =
     (case tool_output r cmd of None \<Rightarrow> Inl (CalledProcessError cmd) | Some out \<Rightarrow> Inr out)"
  "trace (get_output r cmd s) = [GetOutput cmd]"
  "final (get_output r cmd s) = s"
  by (simp_all add: get_output_def run_seq split: option.splits)

lemma run_check_call:
  "result (check_call r cmd s) =
     (if fst (check_outcome r (checks_done s) cmd) then Inr ()
      else Inl (CalledProcessError cmd))"
  "trace (check_call r cmd s) = [CheckCall cmd]"
  "final (check_call r cmd s) =
     s\<lparr>clock := clock s + snd (check_outcome r (checks_done s) cmd),
       checks_done := Suc (checks_done s)\<rparr>"
  by (simp_all add: check_call_def result_def trace_def final_def)

lemma run_add_cleanup:
  "result (add_cleanup name a s) = Inr ()"
  "trace (add_cleanup name a s) = [AddCleanup name a]"
  "final (add_cleanup name a s) = s"
  by (simp_all add: add_cleanup_def run_seq)

lemma run_wait:
  "result (wait r ssh s) = (if ssh_live r then Inr () else Inl WaitFailed)"
  "trace (wait r ssh s) = [SshWait (port ssh)]"
  "final (wait r ssh s) = s"
  by (simp_all add: wait_def run_seq)

lemma run_expose_local_services:
  "result (expose_local_services r ssh ps s) =
     (if expose_ok r then Inr () else Inl ExposeFailed)"
  "trace (expose_local_services r ssh ps s) = [ExposeLocalServices (port ssh) ps]"
  "final (expose_local_services r ssh ps s) = s"
  by (simp_all add: expose_local_services_def run_seq)

lemma run_launch_local_server:
  "result (launch_local_server p s) = Inr ()"
  "trace (launch_local_server p s) = [LaunchLocalServer p, TrackBackground p]"
  "final (launch_local_server p s) = s"
  by (simp_all add: launch_local_server_def run_seq)

lemma run_make_temp:
  "result (make_temp r name s) = Inr (temp_dir r name)"
  "trace (make_temp r name s) = [MakeTemp name]"
  "final (make_temp r name s) = s"
  by (simp_all add: make_temp_def run_seq)

lemma run_listdir:
  "result (listdir r d s) = Inr (dir_entries r d)"
  "trace (listdir r d s) = [ListDir d]"
  "final (listdir r d s) = s"
  by (simp_all add: listdir_def run_seq)

lemma run_time_now:
  "result (time_now s) = Inr (clock s)" "trace (time_now s) = []" "final (time_now s) = s"
  by (simp_all add: time_now_def result_def trace_def final_def)

lemma run_sleep:
  "result (sleep ms s) = Inr ()"
  "trace (sleep ms s) = [Sleep ms]"
  "final (sleep ms s) = s\<lparr>clock := clock s + ms\<rparr>"
  by (simp_all add: sleep_def result_def trace_def final_def)

lemma run_Popen:
  "result (Popen cmd env s) = Inr \<lparr>proc_args = cmd, proc_env = env\<rparr>"
  "trace (Popen cmd env s) = [Spawn cmd]"
  "final (Popen cmd env s) = s"
  by (simp_all add: Popen_def run_seq)

lemma run_connect_sshuttle:
  "result (connect_sshuttle r s) = (if sshuttle_ok r then Inr () else Inl SshuttleFailed)"
  "trace (connect_sshuttle r s) = [ConnectSshuttle]"
  "final (connect_sshuttle r s) = s"
  by (simp_all add: connect_sshuttle_def run_seq)

lemmas run_calls = run_launch run_find_free_port run_depend run_require run_require_sudo
  run_get_output run_check_call run_add_cleanup run_wait run_expose_local_services
  run_launch_local_server run_make_temp run_listdir run_time_now run_sleep run_Popen
  run_connect_sshuttle

lemma preceded_by_append:
  "preceded_by P Q (xs @ ys) =
     (preceded_by P Q xs \<and> ((\<exists>x\<in>set xs. P x) \<or> preceded_by P Q ys))"
  by (induction xs) auto

lemma preceded_by_none: "\<forall>e\<in>set xs. \<not> Q e \<Longrightarrow> preceded_by P Q xs"
  by (induction xs) auto

section \<open>The example session\<close>

lemma example_runner_fields:
  "platform example_runner = ''linux''"
  "temp example_runner = ''/tmp/tel-1''"
  "logfile example_runner = Some ''/home/dev/telepresence.log''"
  "environ example_runner = [''PATH'' \<mapsto> ''/usr/local/bin:/usr/bin:/bin'']"
  "installed example_runner = (\<lambda>c. c = ''ip'' \<or> c = ''socat'')"
  "kubectl example_runner = (\<lambda>args. ''kubectl'' # args)"
  "bg_command example_runner = (\<lambda>p args. [''ssh'', ''-N'', ''-p'', str_of_nat p] @ args @ [''telepresence@localhost''])"
  "MAC_LOOPBACK_IP example_runner = ''198.18.0.254''"
  "free_port example_runner = (\<lambda>k. 40000 + k)"
  "tool_output example_runner = (\<lambda>cmd. if cmd = [''ip'', ''addr'', ''show'', ''dev'', ''docker0''] then Some listing
                           else if cmd = [''ifconfig'', ''docker0''] then Some ''docker0: flags=4099  mtu 1500''
                           else None)"
  "check_outcome example_runner = (\<lambda>k cmd. (2 \<le> k, 6000))"
  "sudo_available example_runner = True"
  "becomes_ready example_runner = (\<lambda>name. True)"
  "ssh_live example_runner = True"
  "expose_ok example_runner = True"
  "sshuttle_ok example_runner = True"
  "temp_dir example_runner = (\<lambda>name. ''/tmp/tel-1/'' @ name)"
  "dir_entries example_runner = (\<lambda>d. if d = ''/bin'' then [''sh'', ''ls''] else if d = ''/usr/bin'' then [''env''] else [])"
  "copy_ok example_runner = (\<lambda>path. path \<noteq> ''/bin/ls'')"
  "set_order example_runner = [''/usr/bin'', ''/bin'', ''/usr/sbin'', ''/sbin'']"
  by (simp_all add: example_runner_def)

lemma listing_tokens: "findall_ipv4 listing = [''172.17.0.1'', ''172.17.255.255'']"
  by (simp add: listing_def match_ipv4_def digits1_def dot1_def is_digit_def)

lemma no_tokens: "findall_ipv4 ''docker0: flags=4099  mtu 1500'' = []"
  by (simp add: match_ipv4_def digits1_def dot1_def is_digit_def)

lemma str_of_nat_examples:
  "str_of_nat 40000 = ''40000''" "str_of_nat 40001 = ''40001''" "str_of_nat 40002 = ''40002''"
  by (simp_all add: str_of_nat.simps digit_char_def)

lemma example_container_run:
  "connect example_runner example_remote container_args example_state =
     (Inr (40001, \<lparr>port = 40000\<rparr>),
      [SpanStart,
       Launch ''kubectl logs'' [''kubectl'', ''logs'', ''-f'', ''telepresence-1-abc'', ''--container'', ''telepresence''],
       FindFreePort 40000,
       Launch ''kubectl port-forward'' [''kubectl'', ''port-forward'', ''telepresence-1-abc'', ''40000:8022''],
       Depend [''ip'', ''ifconfig''],
       GetOutput [''ip'', ''addr'', ''show'', ''dev'', ''docker0''],
       Require [''socat''],
       Launch ''socat for docker'' [''socat'', ''TCP4-LISTEN:40000,bind=172.17.0.1,reuseaddr,fork'', ''TCP4:127.0.0.1:40000''],
       SshWait 40000,
       FindFreePort 40001, FindFreePort 40002, LaunchLocalServer 40002, TrackBackground 40002,
       Launch ''SSH port forward (socks and proxy poll)''
         [''ssh'', ''-N'', ''-p'', ''40000'', ''-L127.0.0.1:40001:127.0.0.1:9050'', ''-R9055:127.0.0.1:40002'', ''telepresence@localhost''],
       SpanEnd],
      \<lparr>clock = 0, ports_given = 3, checks_done = 0\<rparr>)"
  unfolding connect_def Let_def socat_for_docker_def docker_interface_linux_def
  by (simp add: bnd_def andThen_def ret_def raise_def emit_def launch_def find_free_port_def depend_def
        require_def get_output_def wait_def launch_local_server_def
        example_runner_fields example_state_def example_remote_def container_args_def
        listing_tokens str_of_nat_examples)

lemma example_inject_run:
  "connect example_runner example_remote inject_args example_state =
     (Inr (40001, \<lparr>port = 40000\<rparr>),
      [SpanStart,
       Launch ''kubectl logs'' [''kubectl'', ''logs'', ''-f'', ''telepresence-1-abc'', ''--container'', ''telepresence''],
       FindFreePort 40000,
       Launch ''kubectl port-forward'' [''kubectl'', ''port-forward'', ''telepresence-1-abc'', ''40000:8022''],
       SshWait 40000,
       ExposeLocalServices 40000 [(8080, 80)],
       FindFreePort 40001, FindFreePort 40002, LaunchLocalServer 40002, TrackBackground 40002,
       Launch ''SSH port forward (socks and proxy poll)''
         [''ssh'', ''-N'', ''-p'', ''40000'', ''-L127.0.0.1:40001:127.0.0.1:9050'', ''-R9055:127.0.0.1:40002'', ''telepresence@localhost''],
       SpanEnd],
      \<lparr>clock = 0, ports_given = 3, checks_done = 0\<rparr>)"
  unfolding connect_def Let_def socat_for_docker_def
  by (simp add: bnd_def andThen_def ret_def raise_def emit_def launch_def find_free_port_def 
        expose_local_services_def wait_def launch_local_server_def
        example_runner_fields example_state_def example_remote_def inject_args_def
        str_of_nat_examples)


section \<open>Claims about \<open>connect\<close>\<close>

lemma docker_interface_linux_quiet: "quiet (trace (docker_interface_linux r s))"
  unfolding docker_interface_linux_def
  by (simp add: run_seq run_calls quiet_def is_wait_def is_forwarding_leg_def
        split: sum.splits option.splits)

lemma docker_interface_other_quiet: "quiet (trace (docker_interface_other r s))"
  unfolding docker_interface_other_def
  by (simp add: run_seq run_calls quiet_def is_wait_def is_forwarding_leg_def
        split: sum.splits option.splits)

lemma socat_for_docker_quiet: "quiet (trace (socat_for_docker r cmdline ssh s))"
  using docker_interface_linux_quiet[of r s] docker_interface_other_quiet[of r s]
  unfolding socat_for_docker_def
  by (auto simp: run_seq run_calls quiet_def is_wait_def is_forwarding_leg_def
        split: sum.splits)

lemma socat_for_docker_ports:
  "ports_given (final (socat_for_docker r cmdline ssh s)) = ports_given s"
  unfolding socat_for_docker_def docker_interface_linux_def docker_interface_other_def
  by (simp add: run_seq run_calls split: sum.splits option.splits)

lemma port_forward_before_wait:
  "preceded_by
     (\<lambda>e. e = Launch ''kubectl port-forward''
                (kubectl r [''port-forward'', pod_name remote,
                            str_of_nat (free_port r (ports_given s)) @ '':8022'']))
     is_wait (trace (connect r remote cmdline s))"
  unfolding connect_def Let_def
  by (simp add: run_seq run_calls is_wait_def split: sum.splits)

lemma wait_before_forwarding:
  "preceded_by is_wait is_forwarding_leg (trace (connect r remote cmdline s))"
  using socat_for_docker_quiet[of r cmdline "\<lparr>port = free_port r (ports_given s)\<rparr>"
          "s\<lparr>ports_given := Suc (ports_given s)\<rparr>"]
  unfolding connect_def Let_def
  by (simp add: run_seq run_calls is_wait_def is_forwarding_leg_def quiet_def
        preceded_by_append preceded_by_none split: sum.splits)

lemma wait_needs_port_forward:
  "\<exists>e\<in>set (trace (connect r remote cmdline s)). is_wait e
     \<Longrightarrow> becomes_ready r ''kubectl port-forward''"
  using socat_for_docker_quiet[of r cmdline "\<lparr>port = free_port r (ports_given s)\<rparr>"
          "s\<lparr>ports_given := Suc (ports_given s)\<rparr>"]
  unfolding connect_def Let_def
  by (auto simp: run_seq run_calls is_wait_def is_forwarding_leg_def quiet_def
        split: sum.splits if_splits)

lemma forwarding_needs_ssh:
  "\<exists>e\<in>set (trace (connect r remote cmdline s)). is_forwarding_leg e \<Longrightarrow> ssh_live r"
  using socat_for_docker_quiet[of r cmdline "\<lparr>port = free_port r (ports_given s)\<rparr>"
          "s\<lparr>ports_given := Suc (ports_given s)\<rparr>"]
  unfolding connect_def Let_def
  by (auto simp: run_seq run_calls is_wait_def is_forwarding_leg_def quiet_def
        split: sum.splits if_splits)

text \<open>
  C1. Whatever the method: once the run of \<open>connect\<close> has reached \<open>ssh.wait\<close> and the
  session is live (and, for the methods that expose local services, that step went
  through, and the forwarding command came up), \<open>connect\<close> asks \<open>find_free_port\<close> twice
  more (the SOCKS port, then the port of the local poll server), starts the local server
  on the second, launches one SSH command with the two arguments
  \<open>-L127.0.0.1:socks_port:127.0.0.1:9050\<close> and \<open>-R9055:127.0.0.1:local_server_port\<close>, and
  returns the SOCKS port with the SSH handle. These are the last events of the run.
\<close>

theorem connect_opens_socks_and_poll_tunnel:
  assumes "SshWait p \<in> set (trace (connect r remote cmdline s))"
    and "ssh_live r"
    and "method cmdline = ''container'' \<or> expose_ok r"
    and "becomes_ready r ''SSH port forward (socks and proxy poll)''"
  shows "\<exists>before.
     trace (connect r remote cmdline s) =
       before @ [SshWait (free_port r (ports_given s))]
        @ (if method cmdline \<noteq> ''container''
           then [ExposeLocalServices (free_port r (ports_given s)) (local_to_remote cmdline)]
           else [])
        @ [FindFreePort (free_port r (ports_given s + 1)),
           FindFreePort (free_port r (ports_given s + 2)),
           LaunchLocalServer (free_port r (ports_given s + 2)),
           TrackBackground (free_port r (ports_given s + 2)),
           Launch ''SSH port forward (socks and proxy poll)''
             (bg_command r (free_port r (ports_given s))
                [''-L127.0.0.1:'' @ str_of_nat (free_port r (ports_given s + 1))
                   @ '':127.0.0.1:9050'',
                 ''-R9055:127.0.0.1:'' @ str_of_nat (free_port r (ports_given s + 2))]),
           SpanEnd]
     \<and> result (connect r remote cmdline s) =
         Inr (free_port r (ports_given s + 1), \<lparr>port = free_port r (ports_given s)\<rparr>)"
  using assms
    socat_for_docker_quiet[of r cmdline "\<lparr>port = free_port r (ports_given s)\<rparr>"
      "s\<lparr>ports_given := Suc (ports_given s)\<rparr>"]
    socat_for_docker_ports[of r cmdline "\<lparr>port = free_port r (ports_given s)\<rparr>"
      "s\<lparr>ports_given := Suc (ports_given s)\<rparr>"]
  unfolding connect_def Let_def
  by (auto simp: run_seq run_calls is_wait_def is_forwarding_leg_def quiet_def
        split: sum.splits if_splits)

theorem connect_opens_socks_and_poll_tunnel_witness:
  "SshWait 40000 \<in> set (trace (connect example_runner example_remote inject_args example_state))
   \<and> ssh_live example_runner
   \<and> expose_ok example_runner
   \<and> becomes_ready example_runner ''SSH port forward (socks and proxy poll)''
   \<and> result (connect example_runner example_remote inject_args example_state)
       = Inr (40001, \<lparr>port = 40000\<rparr>)
   \<and> free_port example_runner (ports_given example_state + 2) = 40002"
proof -
  have reached: "SshWait 40000
      \<in> set (trace (connect example_runner example_remote inject_args example_state))"
    by (simp add: example_inject_run trace_def)
  have live: "ssh_live example_runner"
    and exposed: "method inject_args = ''container'' \<or> expose_ok example_runner"
    and up: "becomes_ready example_runner ''SSH port forward (socks and proxy poll)''"
    by (simp_all add: example_runner_fields)
  from connect_opens_socks_and_poll_tunnel[OF reached live exposed up]
  have "result (connect example_runner example_remote inject_args example_state) =
          Inr (free_port example_runner (ports_given example_state + 1),
               \<lparr>port = free_port example_runner (ports_given example_state)\<rparr>)"
    by blast
  with reached show ?thesis
    by (simp add: example_runner_fields example_state_def)
qed

text \<open>
  C2. In every run of \<open>connect\<close>, whatever fails on the way:
  no \<open>ssh.wait\<close> happens before the launch of \<open>kubectl port-forward ... port:8022\<close>, and
  a run that gets to \<open>ssh.wait\<close> has seen that port-forward ready (\<open>launch\<close> returns
  only then); no forwarding leg (\<open>expose_local_services\<close>, or the SOCKS and poll forwarding
  command) is requested before \<open>ssh.wait\<close>, and a run that requests one has seen the SSH
  session live.
\<close>

theorem connect_confirms_before_depending:
  "preceded_by
     (\<lambda>e. e = Launch ''kubectl port-forward''
                (kubectl r [''port-forward'', pod_name remote,
                            str_of_nat (free_port r (ports_given s)) @ '':8022'']))
     is_wait (trace (connect r remote cmdline s))
   \<and> ((\<exists>e\<in>set (trace (connect r remote cmdline s)). is_wait e)
        \<longrightarrow> becomes_ready r ''kubectl port-forward'')
   \<and> preceded_by is_wait is_forwarding_leg (trace (connect r remote cmdline s))
   \<and> ((\<exists>e\<in>set (trace (connect r remote cmdline s)). is_forwarding_leg e)
        \<longrightarrow> ssh_live r)"
  using port_forward_before_wait[of r remote s cmdline] wait_before_forwarding[of r remote cmdline s]
    wait_needs_port_forward[of r remote cmdline s] forwarding_needs_ssh[of r remote cmdline s]
  by blast

theorem connect_confirms_before_depending_witness:
  "SshWait 40000 \<in> set (trace (connect example_runner example_remote inject_args example_state))
   \<and> is_wait (SshWait 40000)
   \<and> becomes_ready example_runner ''kubectl port-forward''
   \<and> ExposeLocalServices 40000 [(8080, 80)]
        \<in> set (trace (connect example_runner example_remote inject_args example_state))
   \<and> is_forwarding_leg (ExposeLocalServices 40000 [(8080, 80)])
   \<and> ssh_live example_runner
   \<and> preceded_by is_wait is_forwarding_leg
        (trace (connect example_runner example_remote inject_args example_state))"
proof -
  have w: "SshWait 40000
      \<in> set (trace (connect example_runner example_remote inject_args example_state))"
    and f: "ExposeLocalServices 40000 [(8080, 80)]
      \<in> set (trace (connect example_runner example_remote inject_args example_state))"
    by (simp_all add: example_inject_run trace_def)
  have k: "is_wait (SshWait 40000)" "is_forwarding_leg (ExposeLocalServices 40000 [(8080, 80)])"
    by (simp_all add: is_wait_def is_forwarding_leg_def)
  from w f k
    connect_confirms_before_depending[of example_runner example_remote example_state inject_args]
  show ?thesis by blast
qed

text \<open>
  C5. Container method, Linux. The resolution asks the dependency checker about \<open>ip\<close>
  and \<open>ifconfig\<close>, in this order, and prefers \<open>ip\<close>: with \<open>ip\<close> installed the result is
  read off the output of \<open>ip addr show dev docker0\<close>, so it is the same whether or not
  \<open>ifconfig\<close> is installed too; with \<open>ip\<close> missing and \<open>ifconfig\<close> installed it is read
  off the output of \<open>ifconfig docker0\<close>. The binding is the first match of the pattern
  in that output. With both tools missing the resolution fails with the message "At
  least one of ... must be available" (the spec's DependencyError); when the output holds
  no match it fails with "No interface for docker found" (the spec's ResolutionError).
\<close>

theorem linux_interface_resolution:
  "(\<exists>rest. trace (docker_interface_linux r s) = Depend [''ip'', ''ifconfig''] # rest)
   \<and> (installed r ''ip'' \<longrightarrow>
        result (docker_interface_linux r s) =
          (case tool_output r [''ip'', ''addr'', ''show'', ''dev'', ''docker0''] of
             None \<Rightarrow> Inl (CalledProcessError [''ip'', ''addr'', ''show'', ''dev'', ''docker0''])
           | Some out \<Rightarrow> first_token out))
   \<and> (installed r ''ip'' \<and> installed r' ''ip'' \<and> installed r' ''ifconfig''
        \<and> tool_output r' = tool_output r \<longrightarrow>
        result (docker_interface_linux r s) = result (docker_interface_linux r' s'))
   \<and> (\<not> installed r ''ip'' \<and> installed r ''ifconfig'' \<longrightarrow>
        result (docker_interface_linux r s) =
          (case tool_output r [''ifconfig'', ''docker0''] of
             None \<Rightarrow> Inl (CalledProcessError [''ifconfig'', ''docker0''])
           | Some out \<Rightarrow> first_token out))
   \<and> (\<not> installed r ''ip'' \<and> \<not> installed r ''ifconfig'' \<longrightarrow>
        result (docker_interface_linux r s) = Inl (Fail at_least_one_message))"
proof -
  have ip: "result (docker_interface_linux q t) =
          (case tool_output q [''ip'', ''addr'', ''show'', ''dev'', ''docker0''] of
             None \<Rightarrow> Inl (CalledProcessError [''ip'', ''addr'', ''show'', ''dev'', ''docker0''])
           | Some out \<Rightarrow> first_token out)" if "installed q ''ip''" for q t
    using that unfolding docker_interface_linux_def first_token_def
    by (simp add: run_seq run_calls split: sum.splits option.splits list.splits)
  have ifc: "result (docker_interface_linux r s) =
          (case tool_output r [''ifconfig'', ''docker0''] of
             None \<Rightarrow> Inl (CalledProcessError [''ifconfig'', ''docker0''])
           | Some out \<Rightarrow> first_token out)" if "\<not> installed r ''ip''" "installed r ''ifconfig''"
    using that unfolding docker_interface_linux_def first_token_def
    by (simp add: run_seq run_calls split: sum.splits option.splits list.splits)
  have none: "result (docker_interface_linux r s) = Inl (Fail at_least_one_message)"
    if "\<not> installed r ''ip''" "\<not> installed r ''ifconfig''"
    using that unfolding docker_interface_linux_def at_least_one_message_def
    by (simp add: run_seq run_calls)
  have first: "\<exists>rest. trace (docker_interface_linux r s) = Depend [''ip'', ''ifconfig''] # rest"
    unfolding docker_interface_linux_def by (simp add: run_seq run_calls)
  have same: "result (docker_interface_linux r s) = result (docker_interface_linux r' s')"
    if "installed r ''ip''" "installed r' ''ip''" "tool_output r' = tool_output r"
    using that by (simp add: ip)
  from ip[of r s] ifc none first same show ?thesis by blast
qed

theorem linux_interface_resolution_witness:
  "installed example_runner ''ip''
   \<and> result (docker_interface_linux example_runner example_state) = Inr ''172.17.0.1''
   \<and> result (docker_interface_linux
         (example_runner\<lparr>installed := (\<lambda>c. True)\<rparr>) example_state) = Inr ''172.17.0.1''
   \<and> result (docker_interface_linux
         (example_runner\<lparr>installed := (\<lambda>c. c = ''ifconfig'')\<rparr>) example_state)
        = Inl (Fail ''No interface for docker found'')
   \<and> result (docker_interface_linux
         (example_runner\<lparr>installed := (\<lambda>c. False)\<rparr>) example_state)
        = Inl (Fail at_least_one_message)"
proof -
  have a: "result (docker_interface_linux example_runner example_state) = Inr ''172.17.0.1''"
    using linux_interface_resolution[of example_runner example_state example_runner example_state]
    by (simp add: example_runner_fields first_token_def listing_tokens)
  have b: "result (docker_interface_linux
         (example_runner\<lparr>installed := (\<lambda>c. True)\<rparr>) example_state) = Inr ''172.17.0.1''"
    using linux_interface_resolution[of example_runner example_state
            "example_runner\<lparr>installed := (\<lambda>c. True)\<rparr>" example_state] a
    by (simp add: example_runner_fields first_token_def listing_tokens)
  have c: "result (docker_interface_linux
         (example_runner\<lparr>installed := (\<lambda>c. c = ''ifconfig'')\<rparr>) example_state)
        = Inl (Fail ''No interface for docker found'')"
    using linux_interface_resolution[of "example_runner\<lparr>installed := (\<lambda>c. c = ''ifconfig'')\<rparr>"
            example_state example_runner example_state]
    by (simp add: example_runner_fields first_token_def no_tokens del: findall_ipv4.simps)
  have d: "result (docker_interface_linux
         (example_runner\<lparr>installed := (\<lambda>c. False)\<rparr>) example_state)
        = Inl (Fail at_least_one_message)"
    using linux_interface_resolution[of "example_runner\<lparr>installed := (\<lambda>c. False)\<rparr>"
            example_state example_runner example_state]
    by simp
  from a b c d show ?thesis by (simp add: example_runner_fields)
qed

text \<open>
  C6. Container method on Linux, the listing of \<open>docker0\<close> showing \<open>172.17.0.1\<close> first:
  the resolution returns \<open>172.17.0.1\<close>, and \<open>connect\<close> (with \<open>socat\<close> installed and the two
  \<open>kubectl\<close> children up) launches \<open>socat\<close> listening on the SSH port bound to
  \<open>172.17.0.1\<close> and forwarding to \<open>127.0.0.1\<close> on the same port.
\<close>

theorem container_linux_relay:
  assumes "method cmdline = ''container''" and "platform r = ''linux''"
    and "docker0_listing r = Some out" and "findall_ipv4 out = ''172.17.0.1'' # others"
    and "installed r ''socat''"
    and "becomes_ready r ''kubectl logs''" and "becomes_ready r ''kubectl port-forward''"
  shows "result (docker_interface_linux r s') = Inr ''172.17.0.1''
     \<and> Launch ''socat for docker''
         [''socat'',
          ''TCP4-LISTEN:'' @ str_of_nat (free_port r (ports_given s))
             @ '',bind=172.17.0.1,reuseaddr,fork'',
          ''TCP4:127.0.0.1:'' @ str_of_nat (free_port r (ports_given s))]
        \<in> set (trace (connect r remote cmdline s))"
proof -
  have res: "result (docker_interface_linux r t) = Inr ''172.17.0.1''" for t
    using assms(3,4) unfolding docker_interface_linux_def docker0_listing_def
    by (auto simp: run_seq run_calls split: if_splits)
  have "Launch ''socat for docker''
         [''socat'',
          ''TCP4-LISTEN:'' @ str_of_nat (free_port r (ports_given s))
             @ '',bind=172.17.0.1,reuseaddr,fork'',
          ''TCP4:127.0.0.1:'' @ str_of_nat (free_port r (ports_given s))]
        \<in> set (trace (socat_for_docker r cmdline \<lparr>port = free_port r (ports_given s)\<rparr> t))" for t
    using assms(1,2,5) res[of t] unfolding socat_for_docker_def
    by (simp add: run_seq run_calls)
  then have "Launch ''socat for docker''
         [''socat'',
          ''TCP4-LISTEN:'' @ str_of_nat (free_port r (ports_given s))
             @ '',bind=172.17.0.1,reuseaddr,fork'',
          ''TCP4:127.0.0.1:'' @ str_of_nat (free_port r (ports_given s))]
        \<in> set (trace (connect r remote cmdline s))"
    using assms(6,7) unfolding connect_def Let_def
    by (simp add: run_seq run_calls)
  with res show ?thesis by simp
qed

theorem container_linux_relay_witness:
  "method container_args = ''container'' \<and> platform example_runner = ''linux''
   \<and> docker0_listing example_runner = Some listing
   \<and> findall_ipv4 listing = ''172.17.0.1'' # [''172.17.255.255'']
   \<and> installed example_runner ''socat''
   \<and> becomes_ready example_runner ''kubectl logs''
   \<and> becomes_ready example_runner ''kubectl port-forward''
   \<and> result (docker_interface_linux example_runner example_state) = Inr ''172.17.0.1''
   \<and> Launch ''socat for docker''
         [''socat'', ''TCP4-LISTEN:40000,bind=172.17.0.1,reuseaddr,fork'', ''TCP4:127.0.0.1:40000'']
        \<in> set (trace (connect example_runner example_remote container_args example_state))"
proof -
  have h: "method container_args = ''container''" "platform example_runner = ''linux''"
    "docker0_listing example_runner = Some listing"
    "findall_ipv4 listing = ''172.17.0.1'' # [''172.17.255.255'']"
    "installed example_runner ''socat''"
    "becomes_ready example_runner ''kubectl logs''"
    "becomes_ready example_runner ''kubectl port-forward''"
    by (simp_all add: container_args_def example_runner_fields docker0_listing_def listing_tokens)
  from container_linux_relay[OF h, of example_state example_state example_remote] h
  show ?thesis
    by (simp add: example_runner_fields example_state_def str_of_nat_examples)
qed

section \<open>Claims about \<open>local.py\<close>\<close>

subsection \<open>Splitting and joining\<close>

lemma split_str_not_empty: "split_str c s \<noteq> []"
  by (induction s) (auto split: list.splits)

lemma split_str_no_sep: "c \<notin> set s \<Longrightarrow> split_str c s = [s]"
  by (induction s) (auto split: list.splits)

lemma split_str_append: "c \<notin> set x \<Longrightarrow> split_str c (x @ c # rest) = x # split_str c rest"
  by (induction x) (auto split: list.splits)

lemma split_str_parts: "w \<in> set (split_str c s) \<Longrightarrow> c \<notin> set w"
  by (induction s arbitrary: w) (auto split: list.splits if_splits)

lemma split_join:
  "xs \<noteq> [] \<Longrightarrow> \<forall>x\<in>set xs. c \<notin> set x \<Longrightarrow> split_str c (join_str [c] xs) = xs"
proof (induction "[c]" xs rule: join_str.induct)
  case 1
  then show ?case by simp
next
  case (2 x)
  then show ?case by (simp add: split_str_no_sep)
next
  case (3 x y ys)
  then show ?case by (simp add: split_str_append)
qed

subsection \<open>\<open>sip_workaround\<close>\<close>

lemma copy_entries_run:
  "result (copy_entries r bin d fs s) = Inr ()" "final (copy_entries r bin d fs s) = s"
  by (induction fs) (simp_all add: run_seq)

lemma copy_directories_run:
  "result (copy_directories r bin ds s) = Inr ()" "final (copy_directories r bin ds s) = s"
  by (induction ds) (simp_all add: run_seq run_calls copy_entries_run)

lemma copy_entries_copies:
  "f \<in> set fs \<Longrightarrow> copy_ok r (d @ ''/'' @ f) \<Longrightarrow>
     Copy (d @ ''/'' @ f) bin \<in> set (trace (copy_entries r bin d fs s))
     \<and> Chmod (bin @ ''/'' @ f) 509 \<in> set (trace (copy_entries r bin d fs s))"
  by (induction fs) (auto simp: run_seq copy_entries_run)

lemma copy_directories_copies:
  "d \<in> set ds \<Longrightarrow> f \<in> set (dir_entries r d) \<Longrightarrow> copy_ok r (d @ ''/'' @ f) \<Longrightarrow>
     Copy (d @ ''/'' @ f) bin \<in> set (trace (copy_directories r bin ds s))
     \<and> Chmod (bin @ ''/'' @ f) 509 \<in> set (trace (copy_directories r bin ds s))"
proof (induction ds)
  case Nil
  then show ?case by simp
next
  case (Cons a ds)
  show ?case
  proof (cases "d = a")
    case True
    with Cons.prems copy_entries_copies[of f "dir_entries r d" r d bin s]
    show ?thesis by (simp add: run_seq run_calls copy_entries_run)
  next
    case False
    with Cons show ?thesis by (simp add: run_seq run_calls copy_entries_run)
  qed
qed

lemma copy_entries_target:
  "Copy src dst \<in> set (trace (copy_entries r bin d fs s)) \<Longrightarrow> dst = bin"
  by (induction fs) (auto simp: run_seq copy_entries_run split: if_splits)

lemma copy_directories_target:
  "Copy src dst \<in> set (trace (copy_directories r bin ds s)) \<Longrightarrow> dst = bin"
  by (induction ds) (auto simp: run_seq run_calls copy_entries_run copy_directories_run dest: copy_entries_target)

lemma sip_workaround_result:
  "result (sip_workaround r existing_paths unsup s) =
     Inr (join_str '':'' (unsup # temp_dir r ''sip_bin''
            # filter (\<lambda>p. p \<notin> protected) (split_str CHR '':'' existing_paths)))"
  unfolding sip_workaround_def Let_def
  by (simp add: run_seq run_calls copy_directories_run)

lemma sip_workaround_trace:
  "trace (sip_workaround r existing_paths unsup s) =
     MakeTemp ''sip_bin'' # trace (copy_directories r (temp_dir r ''sip_bin'') (set_order r) s)"
  unfolding sip_workaround_def Let_def
  by (simp add: run_seq run_calls copy_directories_run)


lemma sip_workaround_entries:
  assumes "CHR '':'' \<notin> set unsup" and "CHR '':'' \<notin> set (temp_dir r ''sip_bin'')"
  shows "split_str CHR '':''
           (join_str '':'' (unsup # temp_dir r ''sip_bin''
              # filter (\<lambda>p. p \<notin> protected) (split_str CHR '':'' existing_paths)))
         = unsup # temp_dir r ''sip_bin''
             # filter (\<lambda>p. p \<notin> protected) (split_str CHR '':'' existing_paths)"
  using assms by (intro split_join) (auto dest: split_str_parts)

subsection \<open>\<open>get_unsupported_tools\<close>\<close>

lemma write_tools_run:
  "write_tools d cs s = (Inr (), concat (map (tool_events d) cs), s)"
  by (induction cs) (simp_all add: tool_events_def andThen_def bnd_def emit_def ret_def)

lemma get_unsupported_tools_run:
  "get_unsupported_tools r dns s =
     (Inr (temp_dir r ''unsup_bin''),
      MakeTemp ''unsup_bin'' # concat (map (tool_events (temp_dir r ''unsup_bin''))
         (if dns then [''ping'', ''traceroute'']
          else [''ping'', ''traceroute'', ''nslookup'', ''dig'', ''host''])),
      s)"
  unfolding get_unsupported_tools_def Let_def
  by (simp add: write_tools_run make_temp_def andThen_def bnd_def emit_def ret_def)

lemma script_lines:
  "CHR ''\<newline>'' \<notin> set command \<Longrightarrow>
     split_str CHR ''\<newline>'' (NICE_FAILURE command) =
       [''#!/bin/sh'',
        ''echo '' @ command @ '' is not supported under Telepresence.'',
        ''echo See https://telepresence.io/reference/limitations.html for details.'',
        ''exit 55'',
        []]"
proof -
  assume c: "CHR ''\<newline>'' \<notin> set command"
  have 1: "CHR ''\<newline>'' \<notin> set ''#!/bin/sh''" by simp
  have 2: "CHR ''\<newline>'' \<notin> set (''echo '' @ command @ '' is not supported under Telepresence.'')"
    using c by simp
  have 3: "CHR ''\<newline>'' \<notin> set ''echo See https://telepresence.io/reference/limitations.html for details.''"
    by simp
  have 4: "CHR ''\<newline>'' \<notin> set ''exit 55''" by simp
  have "NICE_FAILURE command =
      ''#!/bin/sh'' @ CHR ''\<newline>'' #
      ((''echo '' @ command @ '' is not supported under Telepresence.'') @ CHR ''\<newline>'' #
      (''echo See https://telepresence.io/reference/limitations.html for details.'' @ CHR ''\<newline>'' #
      (''exit 55'' @ CHR ''\<newline>'' # [])))"
    by (simp add: NICE_FAILURE_def)
  then show ?thesis
    by (simp only: split_str_append[OF 1] split_str_append[OF 2] split_str_append[OF 3]
          split_str_append[OF 4] split_str.simps)
qed

lemma run_local_command_starts:
  "\<exists>rest. trace (run_local_command r remote args env_overrides socks_port ssh s) =
     trace (get_unsupported_tools r (method args \<noteq> ''inject-tcp'') s) @ rest"
  unfolding run_local_command_def Let_def
  by (simp add: run_seq)


text \<open>
  C7. \<open>get_unsupported_tools\<close> makes the directory \<open>unsup_bin\<close> and, for each shadowed
  command in turn, writes the script and makes it executable (mode \<open>0o755\<close>, 493); nothing
  else. The script's second line echoes a message that starts with the command's name, its
  fourth line is \<open>exit 55\<close>. The commands are \<open>ping\<close> and \<open>traceroute\<close> when DNS is
  supported, and these two followed by \<open>nslookup\<close>, \<open>dig\<close> and \<open>host\<close> when it is not;
  \<open>run_local_command\<close> begins with this step, DNS counting as supported unless the method
  is \<open>inject-tcp\<close>.
\<close>

theorem unsupported_tool_stubs:
  "get_unsupported_tools r True s =
     (Inr (temp_dir r ''unsup_bin''),
      MakeTemp ''unsup_bin''
        # concat (map (tool_events (temp_dir r ''unsup_bin'')) [''ping'', ''traceroute'']),
      s)
   \<and> get_unsupported_tools r False s =
     (Inr (temp_dir r ''unsup_bin''),
      MakeTemp ''unsup_bin''
        # concat (map (tool_events (temp_dir r ''unsup_bin''))
                   [''ping'', ''traceroute'', ''nslookup'', ''dig'', ''host'']),
      s)
   \<and> (CHR ''\<newline>'' \<notin> set command \<longrightarrow>
        split_str CHR ''\<newline>'' (NICE_FAILURE command) =
          [''#!/bin/sh'',
           ''echo '' @ command @ '' is not supported under Telepresence.'',
           ''echo See https://telepresence.io/reference/limitations.html for details.'',
           ''exit 55'',
           []])
   \<and> (\<exists>rest. trace (run_local_command r remote args env_overrides socks_port ssh s) =
         trace (get_unsupported_tools r (method args \<noteq> ''inject-tcp'') s) @ rest)"
  using get_unsupported_tools_run[of r True s] get_unsupported_tools_run[of r False s]
    script_lines[of command]
    run_local_command_starts[of r remote args env_overrides socks_port ssh s]
  by simp

theorem unsupported_tool_stubs_witness:
  "CHR ''\<newline>'' \<notin> set ''ping''
   \<and> split_str CHR ''\<newline>'' (NICE_FAILURE ''ping'') =
        [''#!/bin/sh'',
         ''echo ping is not supported under Telepresence.'',
         ''echo See https://telepresence.io/reference/limitations.html for details.'',
         ''exit 55'',
         []]
   \<and> trace (get_unsupported_tools example_runner True example_state) =
        [MakeTemp ''unsup_bin'',
         WriteFile ''/tmp/tel-1/unsup_bin/ping'' (NICE_FAILURE ''ping''),
         Chmod ''/tmp/tel-1/unsup_bin/ping'' 493,
         WriteFile ''/tmp/tel-1/unsup_bin/traceroute'' (NICE_FAILURE ''traceroute''),
         Chmod ''/tmp/tel-1/unsup_bin/traceroute'' 493]"
  using unsupported_tool_stubs[of example_runner example_state "''ping''" example_remote
          inject_args Map.empty 40001 "\<lparr>port = 40000\<rparr>"]
  by (simp add: trace_def tool_events_def example_runner_fields)

subsection \<open>The search path after \<open>sip_workaround\<close>\<close>

lemma example_sip_run:
  "sip_workaround example_runner ''/tmp/tel-1/unsup_bin:/usr/local/bin:/usr/bin:/bin''
      ''/tmp/tel-1/unsup_bin'' example_state =
     (Inr ''/tmp/tel-1/unsup_bin:/tmp/tel-1/sip_bin:/tmp/tel-1/unsup_bin:/usr/local/bin'',
      [MakeTemp ''sip_bin'',
       ListDir ''/usr/bin'', Copy ''/usr/bin/env'' ''/tmp/tel-1/sip_bin'',
       Chmod ''/tmp/tel-1/sip_bin/env'' 509,
       ListDir ''/bin'', Copy ''/bin/sh'' ''/tmp/tel-1/sip_bin'',
       Chmod ''/tmp/tel-1/sip_bin/sh'' 509, CopyIOError ''/bin/ls'',
       ListDir ''/usr/sbin'', ListDir ''/sbin''],
      example_state)"
  unfolding sip_workaround_def Let_def
  by (simp add: protected_def make_temp_def listdir_def andThen_def bnd_def emit_def ret_def
        example_runner_fields)

text \<open>
  C8, as the code has it. \<open>sip_workaround\<close> copies every entry of the four protected
  directories that can be copied into the one temporary directory \<open>sip_bin\<close> (and makes
  the copy executable), puts \<open>sip_bin\<close> in front of what is left of the search path, and
  then puts the unsupported-tools directory in front of that: the first entry of the
  resulting PATH is the unsupported-tools directory, the second is the temporary directory.
\<close>

theorem sip_workaround_path_order:
  assumes "CHR '':'' \<notin> set unsup" and "CHR '':'' \<notin> set (temp_dir r ''sip_bin'')"
    and "set (set_order r) = protected"
  shows "\<exists>path.
     result (sip_workaround r existing_paths unsup s) = Inr path
     \<and> (\<exists>rest. split_str CHR '':'' path = unsup # temp_dir r ''sip_bin'' # rest)
     \<and> (\<forall>d\<in>protected. \<forall>f\<in>set (dir_entries r d). copy_ok r (d @ ''/'' @ f) \<longrightarrow>
           Copy (d @ ''/'' @ f) (temp_dir r ''sip_bin'')
             \<in> set (trace (sip_workaround r existing_paths unsup s))
           \<and> Chmod (temp_dir r ''sip_bin'' @ ''/'' @ f) 509
             \<in> set (trace (sip_workaround r existing_paths unsup s)))
     \<and> (\<forall>src dst. Copy src dst \<in> set (trace (sip_workaround r existing_paths unsup s))
           \<longrightarrow> dst = temp_dir r ''sip_bin'')"
proof -
  have copies: "Copy (d @ ''/'' @ f) (temp_dir r ''sip_bin'')
             \<in> set (trace (sip_workaround r existing_paths unsup s))
           \<and> Chmod (temp_dir r ''sip_bin'' @ ''/'' @ f) 509
             \<in> set (trace (sip_workaround r existing_paths unsup s))"
    if "d \<in> protected" "f \<in> set (dir_entries r d)" "copy_ok r (d @ ''/'' @ f)" for d f
    using that assms(3)
      copy_directories_copies[of d "set_order r" f r "temp_dir r ''sip_bin''" s]
    by (simp add: sip_workaround_trace)
  have target: "dst = temp_dir r ''sip_bin''"
    if "Copy src dst \<in> set (trace (sip_workaround r existing_paths unsup s))" for src dst
    using that copy_directories_target[of src dst r "temp_dir r ''sip_bin''" "set_order r" s]
    by (simp add: sip_workaround_trace)
  from copies target sip_workaround_entries[OF assms(1,2), of existing_paths]
  show ?thesis
    by (simp add: sip_workaround_result)
qed

theorem sip_workaround_path_order_witness:
  "CHR '':'' \<notin> set ''/tmp/tel-1/unsup_bin''
   \<and> CHR '':'' \<notin> set (temp_dir example_runner ''sip_bin'')
   \<and> set (set_order example_runner) = protected
   \<and> ''/bin'' \<in> protected \<and> ''sh'' \<in> set (dir_entries example_runner ''/bin'')
   \<and> copy_ok example_runner (''/bin'' @ ''/'' @ ''sh'')
   \<and> Copy ''/bin/sh'' ''/tmp/tel-1/sip_bin''
        \<in> set (trace (sip_workaround example_runner
              ''/tmp/tel-1/unsup_bin:/usr/local/bin:/usr/bin:/bin''
              ''/tmp/tel-1/unsup_bin'' example_state))
   \<and> split_str CHR '':''
        ''/tmp/tel-1/unsup_bin:/tmp/tel-1/sip_bin:/tmp/tel-1/unsup_bin:/usr/local/bin''
       = [''/tmp/tel-1/unsup_bin'', ''/tmp/tel-1/sip_bin'', ''/tmp/tel-1/unsup_bin'',
          ''/usr/local/bin'']"
proof -
  have h: "CHR '':'' \<notin> set ''/tmp/tel-1/unsup_bin''"
    "CHR '':'' \<notin> set (temp_dir example_runner ''sip_bin'')"
    "set (set_order example_runner) = protected"
    by (auto simp: example_runner_fields protected_def)
  have k: "''/bin'' \<in> protected" "''sh'' \<in> set (dir_entries example_runner ''/bin'')"
    "copy_ok example_runner (''/bin'' @ ''/'' @ ''sh'')"
    by (simp_all add: example_runner_fields protected_def)
  from sip_workaround_path_order[OF h,
      of "''/tmp/tel-1/unsup_bin:/usr/local/bin:/usr/bin:/bin''" example_state] k
  have "Copy (''/bin'' @ ''/'' @ ''sh'') (temp_dir example_runner ''sip_bin'')
        \<in> set (trace (sip_workaround example_runner
              ''/tmp/tel-1/unsup_bin:/usr/local/bin:/usr/bin:/bin''
              ''/tmp/tel-1/unsup_bin'' example_state))"
    by blast
  with h k show ?thesis
    by (simp add: example_runner_fields)
qed

text \<open>
  The claim as the spec words it fails on this run: the temporary directory is the second
  entry of the result, the first is the unsupported-tools directory.
\<close>

theorem sip_workaround_first_entry_counterexample:
  "result (sip_workaround example_runner ''/tmp/tel-1/unsup_bin:/usr/local/bin:/usr/bin:/bin''
      ''/tmp/tel-1/unsup_bin'' example_state)
     = Inr ''/tmp/tel-1/unsup_bin:/tmp/tel-1/sip_bin:/tmp/tel-1/unsup_bin:/usr/local/bin''
   \<and> hd (split_str CHR '':''
        ''/tmp/tel-1/unsup_bin:/tmp/tel-1/sip_bin:/tmp/tel-1/unsup_bin:/usr/local/bin'')
       = ''/tmp/tel-1/unsup_bin''
   \<and> temp_dir example_runner ''sip_bin'' = ''/tmp/tel-1/sip_bin''
   \<and> hd (split_str CHR '':''
        ''/tmp/tel-1/unsup_bin:/tmp/tel-1/sip_bin:/tmp/tel-1/unsup_bin:/usr/local/bin'')
       \<noteq> temp_dir example_runner ''sip_bin''"
  by (simp add: example_sip_run result_def example_runner_fields)

text \<open>
  C10. Whatever the PATH handed in: with the two prepended directories being single
  entries (no colon in their names) other than the protected ones, the entries of the
  PATH that \<open>sip_workaround\<close> returns are the two prepended directories followed by the
  entries of the old PATH that are not protected, in their old order; none of the four
  protected directories is among them.
\<close>

theorem sip_workaround_removes_protected:
  assumes "CHR '':'' \<notin> set unsup" and "CHR '':'' \<notin> set (temp_dir r ''sip_bin'')"
    and "unsup \<notin> protected" and "temp_dir r ''sip_bin'' \<notin> protected"
  shows "\<exists>path.
     result (sip_workaround r existing_paths unsup s) = Inr path
     \<and> split_str CHR '':'' path =
         unsup # temp_dir r ''sip_bin''
           # filter (\<lambda>p. p \<notin> protected) (split_str CHR '':'' existing_paths)
     \<and> (\<forall>p\<in>set (split_str CHR '':'' path). p \<notin> protected)"
  using assms sip_workaround_entries[OF assms(1,2), of existing_paths]
  by (simp add: sip_workaround_result)

theorem sip_workaround_removes_protected_witness:
  "CHR '':'' \<notin> set ''/tmp/tel-1/unsup_bin''
   \<and> CHR '':'' \<notin> set (temp_dir example_runner ''sip_bin'')
   \<and> ''/tmp/tel-1/unsup_bin'' \<notin> protected
   \<and> temp_dir example_runner ''sip_bin'' \<notin> protected
   \<and> result (sip_workaround example_runner ''/usr/bin:/opt/bin:/bin:/usr/local/bin:/sbin''
               ''/tmp/tel-1/unsup_bin'' example_state)
       = Inr ''/tmp/tel-1/unsup_bin:/tmp/tel-1/sip_bin:/opt/bin:/usr/local/bin''
   \<and> split_str CHR '':'' ''/tmp/tel-1/unsup_bin:/tmp/tel-1/sip_bin:/opt/bin:/usr/local/bin''
       = [''/tmp/tel-1/unsup_bin'', ''/tmp/tel-1/sip_bin'', ''/opt/bin'', ''/usr/local/bin'']"
proof -
  have h: "CHR '':'' \<notin> set ''/tmp/tel-1/unsup_bin''"
    "CHR '':'' \<notin> set (temp_dir example_runner ''sip_bin'')"
    "''/tmp/tel-1/unsup_bin'' \<notin> protected"
    "temp_dir example_runner ''sip_bin'' \<notin> protected"
    by (auto simp: example_runner_fields protected_def)
  have r: "result (sip_workaround example_runner ''/usr/bin:/opt/bin:/bin:/usr/local/bin:/sbin''
               ''/tmp/tel-1/unsup_bin'' example_state)
       = Inr ''/tmp/tel-1/unsup_bin:/tmp/tel-1/sip_bin:/opt/bin:/usr/local/bin''"
    by (simp add: sip_workaround_result example_runner_fields protected_def)
  from sip_workaround_removes_protected[OF h,
      of "''/usr/bin:/opt/bin:/bin:/usr/local/bin:/sbin''" example_state] h r
  show ?thesis
    by simp
qed

subsection \<open>The loop of \<open>setup_torsocks\<close>\<close>

lemma after_failed_probe_fields:
  "clock (after_failed_probe r s) = clock s + probe_time r (checks_done s) + 100"
  "checks_done (after_failed_probe r s) = Suc (checks_done s)"
  "ports_given (after_failed_probe r s) = ports_given s"
  by (simp_all add: after_failed_probe_def)

lemma wait_over:
  "\<not> clock s - start < 10000 \<Longrightarrow>
     wait_for_socks r start s = (Inl (RuntimeError timeout_message), [], s)"
  by (subst wait_for_socks.simps) (simp only: if_False raise_def timeout_message_def)

lemma wait_ok:
  "clock s - start < 10000 \<Longrightarrow> probe_ok r (checks_done s) \<Longrightarrow>
     wait_for_socks r start s = check_call r torsocks_probe s"
  by (subst wait_for_socks.simps) (simp add: Let_def run_calls probe_ok_def)

lemma wait_retry:
  "clock s - start < 10000 \<Longrightarrow> \<not> probe_ok r (checks_done s) \<Longrightarrow>
     wait_for_socks r start s =
       (result (wait_for_socks r start (after_failed_probe r s)),
        CheckCall torsocks_probe # Sleep 100
          # trace (wait_for_socks r start (after_failed_probe r s)),
        final (wait_for_socks r start (after_failed_probe r s)))"
proof -
  assume a: "clock s - start < 10000" "\<not> probe_ok r (checks_done s)"
  have st: "final (sleep 100 (final (check_call r torsocks_probe s))) = after_failed_probe r s"
    by (simp add: run_calls after_failed_probe_def probe_time_def)
  from a show ?thesis
    by (subst wait_for_socks.simps)
       (simp add: Let_def st run_check_call(1,2) run_sleep(1,2) probe_ok_def)
qed

lemma wait_succeeds:
  "fails_from r (checks_done s) n \<Longrightarrow> probe_ok r (checks_done s + n)
     \<Longrightarrow> clock s + spent r (checks_done s) n < start + 10000
     \<Longrightarrow> result (wait_for_socks r start s) = Inr ()
         \<and> checks_done (final (wait_for_socks r start s)) = checks_done s + Suc n"
proof (induction n arbitrary: s)
  case 0
  then have "clock s - start < 10000" "probe_ok r (checks_done s)"
    by simp_all
  then show ?case
    by (simp add: wait_ok run_calls probe_ok_def)
next
  case (Suc n)
  have now: "clock s - start < 10000" "\<not> probe_ok r (checks_done s)"
    using Suc.prems by simp_all
  have "result (wait_for_socks r start (after_failed_probe r s)) = Inr ()
         \<and> checks_done (final (wait_for_socks r start (after_failed_probe r s)))
             = checks_done (after_failed_probe r s) + Suc n"
    using Suc.prems by (intro Suc.IH) (simp_all add: after_failed_probe_fields add.assoc)
  then show ?case
    by (simp add: wait_retry[OF now] result_def final_def after_failed_probe_fields)
qed

lemma wait_gives_up:
  "fails_from r (checks_done s) n \<Longrightarrow> start + 10000 \<le> clock s + spent r (checks_done s) n
     \<Longrightarrow> result (wait_for_socks r start s) = Inl (RuntimeError timeout_message)
         \<and> checks_done (final (wait_for_socks r start s)) \<le> checks_done s + n"
proof (induction n arbitrary: s)
  case 0
  then have "\<not> clock s - start < 10000" by simp
  then show ?case
    by (simp add: wait_over result_def final_def)
next
  case (Suc n)
  show ?case
  proof (cases "clock s - start < 10000")
    case True
    have now: "\<not> probe_ok r (checks_done s)"
      using Suc.prems by simp
    have "result (wait_for_socks r start (after_failed_probe r s))
            = Inl (RuntimeError timeout_message)
         \<and> checks_done (final (wait_for_socks r start (after_failed_probe r s)))
             \<le> checks_done (after_failed_probe r s) + n"
      using Suc.prems by (intro Suc.IH) (simp_all add: after_failed_probe_fields add.assoc)
    then show ?thesis
      by (simp add: wait_retry[OF True now] result_def final_def after_failed_probe_fields)
  next
    case False
    then show ?thesis
      by (simp add: wait_over result_def final_def)
  qed
qed

lemma fails_from_always: "\<forall>k. \<not> probe_ok r k \<Longrightarrow> fails_from r c n"
  by (induction n arbitrary: c) simp_all

lemma spent_at_least: "100 * n \<le> spent r c n"
proof (induction n arbitrary: c)
  case 0
  then show ?case by simp
next
  case (Suc n)
  from Suc[of "Suc c"] show ?case by simp
qed

text \<open>Induction along the loop: from a state to the state after a failed probe.\<close>

lemma wait_induct:
  assumes step: "\<And>s. (clock s - start < 10000 \<Longrightarrow> \<not> probe_ok r (checks_done s)
                        \<Longrightarrow> P (after_failed_probe r s)) \<Longrightarrow> P s"
  shows "P s"
proof (induction "start + 10000 - clock s" arbitrary: s rule: less_induct)
  case less
  show ?case
  proof (rule step)
    assume "clock s - start < 10000"
    then have "start + 10000 - clock (after_failed_probe r s) < start + 10000 - clock s"
      by (simp add: after_failed_probe_fields)
    then show "P (after_failed_probe r s)"
      by (rule less.hyps)
  qed
qed

lemma wait_cases:
  obtains (over) "\<not> clock s - start < 10000"
    "wait_for_socks r start s = (Inl (RuntimeError timeout_message), [], s)"
  | (ok) "clock s - start < 10000" "probe_ok r (checks_done s)"
    "wait_for_socks r start s = check_call r torsocks_probe s"
  | (retry) "clock s - start < 10000" "\<not> probe_ok r (checks_done s)"
    "wait_for_socks r start s =
       (result (wait_for_socks r start (after_failed_probe r s)),
        CheckCall torsocks_probe # Sleep 100
          # trace (wait_for_socks r start (after_failed_probe r s)),
        final (wait_for_socks r start (after_failed_probe r s)))"
  using wait_over[of s start r] wait_ok[of s start r] wait_retry[of s start r]
  by blast

lemma wait_counts_up: "checks_done s \<le> checks_done (final (wait_for_socks r start s))"
proof (induction s rule: wait_induct[where r = r and start = start])
  case (1 s)
  show ?case
  proof (cases rule: wait_cases[where s = s and start = start and r = r])
    case over
    then show ?thesis by (simp add: final_def)
  next
    case ok
    then show ?thesis by (simp add: run_calls)
  next
    case retry
    with 1 show ?thesis by (simp add: final_def after_failed_probe_fields)
  qed
qed

lemma wait_result:
  "result (wait_for_socks r start s) = Inr ()
   \<or> result (wait_for_socks r start s) = Inl (RuntimeError timeout_message)"
proof (induction s rule: wait_induct[where r = r and start = start])
  case (1 s)
  show ?case
  proof (cases rule: wait_cases[where s = s and start = start and r = r])
    case over
    then show ?thesis by (simp add: result_def)
  next
    case ok
    then show ?thesis by (simp add: run_calls probe_ok_def)
  next
    case retry
    with 1 show ?thesis by (simp add: result_def)
  qed
qed

lemma wait_trace:
  "\<forall>e\<in>set (trace (wait_for_socks r start s)). e = CheckCall torsocks_probe \<or> e = Sleep 100"
proof (induction s rule: wait_induct[where r = r and start = start])
  case (1 s)
  show ?case
  proof (cases rule: wait_cases[where s = s and start = start and r = r])
    case over
    then show ?thesis by (simp add: trace_def)
  next
    case ok
    then show ?thesis by (simp add: run_calls)
  next
    case retry
    with 1 show ?thesis by (simp add: trace_def)
  qed
qed


lemma wait_not_early:
  "result (wait_for_socks r start s) = Inl (RuntimeError timeout_message) \<Longrightarrow>
     start + 10000 \<le> clock (final (wait_for_socks r start s))"
proof (induction s rule: wait_induct[where r = r and start = start])
  case (1 s)
  show ?case
  proof (cases rule: wait_cases[where s = s and start = start and r = r])
    case over
    then show ?thesis by (simp add: final_def)
  next
    case ok
    with 1(2) show ?thesis by (simp add: run_calls probe_ok_def)
  next
    case retry
    with 1 show ?thesis by (simp add: final_def result_def)
  qed
qed

lemma wait_not_late:
  "result (wait_for_socks r start s) = Inl (RuntimeError timeout_message) \<Longrightarrow>
   checks_done s < checks_done (final (wait_for_socks r start s)) \<Longrightarrow>
     clock (final (wait_for_socks r start s))
       < start + 10000 + probe_time r (checks_done (final (wait_for_socks r start s)) - 1) + 100"
proof (induction s rule: wait_induct[where r = r and start = start])
  case (1 s)
  show ?case
  proof (cases rule: wait_cases[where s = s and start = start and r = r])
    case over
    with 1(3) show ?thesis by (simp add: final_def)
  next
    case ok
    with 1(2) show ?thesis by (simp add: run_calls probe_ok_def)
  next
    case retry
    let ?t = "after_failed_probe r s"
    have res: "result (wait_for_socks r start ?t) = Inl (RuntimeError timeout_message)"
      and fin: "final (wait_for_socks r start s) = final (wait_for_socks r start ?t)"
      using retry 1(2) by (simp_all add: result_def final_def)
    show ?thesis
    proof (cases "checks_done ?t < checks_done (final (wait_for_socks r start ?t))")
      case True
      with 1(1)[OF retry(1,2) res] fin show ?thesis by simp
    next
      case False
      have "final (wait_for_socks r start ?t) = ?t"
      proof (cases rule: wait_cases[where s = ?t and start = start and r = r])
        case over
        then show ?thesis by (simp add: final_def)
      next
        case ok
        with res show ?thesis by (simp add: run_calls probe_ok_def)
      next
        case retry
        then have "final (wait_for_socks r start ?t)
            = final (wait_for_socks r start (after_failed_probe r ?t))"
          by (simp add: final_def)
        with wait_counts_up[of "after_failed_probe r ?t" r start] False
        show ?thesis by (simp add: after_failed_probe_fields)
      qed
      with fin retry(1) show ?thesis
        by (simp add: after_failed_probe_fields)
    qed
  qed
qed


lemma dead_wait:
  "wait_for_socks dead_runner 0 example_state =
     (Inl (RuntimeError timeout_message),
      [CheckCall torsocks_probe, Sleep 100, CheckCall torsocks_probe, Sleep 100],
      \<lparr>clock = 12200, ports_given = 0, checks_done = 2\<rparr>)"
  by (simp add: wait_for_socks.simps check_call_def sleep_def result_def trace_def final_def
        dead_runner_def example_state_def Let_def raise_def timeout_message_def)

lemma slow_wait:
  "wait_for_socks example_runner 0 example_state =
     (Inl (RuntimeError timeout_message),
      [CheckCall torsocks_probe, Sleep 100, CheckCall torsocks_probe, Sleep 100],
      \<lparr>clock = 12200, ports_given = 0, checks_done = 2\<rparr>)"
  by (simp add: wait_for_socks.simps check_call_def sleep_def result_def trace_def final_def
        example_runner_fields example_state_def Let_def raise_def timeout_message_def)

text \<open>
  C3, as the code has it. The loop probes, and after a probe that failed sleeps 0.1 s and
  looks at the clock again; nothing else happens in it. The time that counts is the time
  on the clock, probes included: when the first \<open>n\<close> probes fail, the next one succeeds
  and the \<open>n\<close> failures with their sleeps have taken less than ten seconds, the wait
  returns after exactly \<open>n + 1\<close> probes. When no probe ever succeeds, the wait raises
  \<open>RuntimeError\<close> (the spec's ProxyNotReadyError) after at least one and at most a
  hundred probes, not before ten seconds have passed and less than a probe and a sleep
  after them.
\<close>

theorem socks_wait_is_bounded:
  "(\<forall>e\<in>set (trace (wait_for_socks r (clock s) s)). e = CheckCall torsocks_probe \<or> e = Sleep 100)
   \<and> (fails_from r (checks_done s) n \<and> probe_ok r (checks_done s + n)
        \<and> spent r (checks_done s) n < 10000 \<longrightarrow>
        result (wait_for_socks r (clock s) s) = Inr ()
        \<and> checks_done (final (wait_for_socks r (clock s) s)) = checks_done s + Suc n)
   \<and> ((\<forall>k. \<not> probe_ok r k) \<longrightarrow>
        result (wait_for_socks r (clock s) s) = Inl (RuntimeError timeout_message)
        \<and> checks_done s < checks_done (final (wait_for_socks r (clock s) s))
        \<and> checks_done (final (wait_for_socks r (clock s) s)) \<le> checks_done s + 100
        \<and> clock s + 10000 \<le> clock (final (wait_for_socks r (clock s) s))
        \<and> clock (final (wait_for_socks r (clock s) s))
            < clock s + 10000
              + probe_time r (checks_done (final (wait_for_socks r (clock s) s)) - 1) + 100)"
proof -
  have good: "result (wait_for_socks r (clock s) s) = Inr ()
        \<and> checks_done (final (wait_for_socks r (clock s) s)) = checks_done s + Suc n"
    if "fails_from r (checks_done s) n" "probe_ok r (checks_done s + n)"
      "spent r (checks_done s) n < 10000"
    using that by (intro wait_succeeds) simp_all
  have bad: "result (wait_for_socks r (clock s) s) = Inl (RuntimeError timeout_message)
        \<and> checks_done s < checks_done (final (wait_for_socks r (clock s) s))
        \<and> checks_done (final (wait_for_socks r (clock s) s)) \<le> checks_done s + 100
        \<and> clock s + 10000 \<le> clock (final (wait_for_socks r (clock s) s))
        \<and> clock (final (wait_for_socks r (clock s) s))
            < clock s + 10000
              + probe_time r (checks_done (final (wait_for_socks r (clock s) s)) - 1) + 100"
    if never: "\<forall>k. \<not> probe_ok r k"
  proof -
    have "10000 \<le> spent r (checks_done s) 100"
      using spent_at_least[of 100 r "checks_done s"] by simp
    with wait_gives_up[of r s 100 "clock s"] fails_from_always[OF never]
    have res: "result (wait_for_socks r (clock s) s) = Inl (RuntimeError timeout_message)"
      and upto: "checks_done (final (wait_for_socks r (clock s) s)) \<le> checks_done s + 100"
      by simp_all
    have first: "clock s - clock s < 10000" "\<not> probe_ok r (checks_done s)"
      using never by simp_all
    have "final (wait_for_socks r (clock s) s)
            = final (wait_for_socks r (clock s) (after_failed_probe r s))"
      by (simp add: wait_retry[OF first] final_def)
    with wait_counts_up[of "after_failed_probe r s" r "clock s"]
    have once: "checks_done s < checks_done (final (wait_for_socks r (clock s) s))"
      by (simp add: after_failed_probe_fields)
    from res upto once wait_not_early[OF res] wait_not_late[OF res once]
    show ?thesis by simp
  qed
  from good bad wait_trace[of r "clock s" s] show ?thesis by blast
qed

theorem socks_wait_is_bounded_witness:
  "fails_from quick_runner 0 2 \<and> probe_ok quick_runner 2 \<and> spent quick_runner 0 2 < 10000
   \<and> result (wait_for_socks quick_runner 0 example_state) = Inr ()
   \<and> checks_done (final (wait_for_socks quick_runner 0 example_state)) = 3
   \<and> \<not> probe_ok dead_runner 0 \<and> \<not> probe_ok dead_runner 1
   \<and> result (wait_for_socks dead_runner 0 example_state) = Inl (RuntimeError timeout_message)
   \<and> checks_done (final (wait_for_socks dead_runner 0 example_state)) = 2
   \<and> clock (final (wait_for_socks dead_runner 0 example_state)) = 12200
   \<and> CheckCall torsocks_probe \<in> set (trace (wait_for_socks dead_runner 0 example_state))"
proof -
  have q: "fails_from quick_runner (checks_done example_state) 2"
    "probe_ok quick_runner (checks_done example_state + 2)"
    "spent quick_runner (checks_done example_state) 2 < 10000"
    by (simp_all add: numeral_2_eq_2 probe_ok_def probe_time_def quick_runner_def
          example_state_def)
  have d: "\<forall>k. \<not> probe_ok dead_runner k"
    by (simp add: probe_ok_def dead_runner_def)
  have c: "clock example_state = 0" "checks_done example_state = 0"
    by (simp_all add: example_state_def)
  from socks_wait_is_bounded[of quick_runner example_state 2] q
  have "result (wait_for_socks quick_runner (clock example_state) example_state) = Inr ()
     \<and> checks_done (final (wait_for_socks quick_runner (clock example_state) example_state))
         = checks_done example_state + Suc 2"
    by blast
  then have 1: "result (wait_for_socks quick_runner 0 example_state) = Inr ()"
    "checks_done (final (wait_for_socks quick_runner 0 example_state)) = 3"
    by (simp_all add: c)
  from socks_wait_is_bounded[of dead_runner example_state 0] d
  have "result (wait_for_socks dead_runner (clock example_state) example_state)
      = Inl (RuntimeError timeout_message)"
    by blast
  then have 2: "result (wait_for_socks dead_runner 0 example_state)
      = Inl (RuntimeError timeout_message)"
    by (simp add: c)
  have 3: "checks_done (final (wait_for_socks dead_runner 0 example_state)) = 2"
    "clock (final (wait_for_socks dead_runner 0 example_state)) = 12200"
    "CheckCall torsocks_probe \<in> set (trace (wait_for_socks dead_runner 0 example_state))"
    by (simp_all add: dead_wait final_def trace_def)
  from q have q': "fails_from quick_runner 0 2" "probe_ok quick_runner 2"
    "spent quick_runner 0 2 < 10000"
    by (simp_all only: c add_0)
  from q' 1 2 3 d show ?thesis
    by blast
qed

text \<open>
  The claim as the spec words it counts the sleeps only. Here each probe takes six
  seconds and the third one would succeed: three times 0.1 s is far below ten seconds, but
  after two failed probes 12.2 s have passed and the wait raises, having probed twice.
\<close>

theorem socks_wait_counterexample:
  "fails_from example_runner 0 2 \<and> probe_ok example_runner 2 \<and> (3::nat) * 100 < 10000
   \<and> result (wait_for_socks example_runner (clock example_state) example_state)
       = Inl (RuntimeError timeout_message)
   \<and> checks_done (final (wait_for_socks example_runner (clock example_state) example_state)) = 2"
  by (simp add: numeral_2_eq_2 probe_ok_def example_runner_fields
        slow_wait[unfolded example_state_def] example_state_def result_def final_def)

subsection \<open>\<open>run_local_command\<close>\<close>

lemma tool_events_plain:
  "\<forall>e\<in>set (concat (map (tool_events d) cs)). \<not> is_probe e \<and> \<not> is_spawn e"
  by (induction cs) (simp_all add: tool_events_def is_probe_def is_spawn_def)

lemma get_unsupported_tools_plain:
  "\<forall>e\<in>set (trace (get_unsupported_tools r dns s)). \<not> is_probe e \<and> \<not> is_spawn e"
  using tool_events_plain
  by (simp add: get_unsupported_tools_run trace_def is_probe_def is_spawn_def)

lemma get_unsupported_tools_parts:
  "result (get_unsupported_tools r dns s) = Inr (temp_dir r ''unsup_bin'')"
  "final (get_unsupported_tools r dns s) = s"
  by (simp_all add: get_unsupported_tools_run result_def final_def)















lemma get_unsupported_tools_trace:
  "trace (get_unsupported_tools r dns s) =
     MakeTemp ''unsup_bin'' # concat (map (tool_events (temp_dir r ''unsup_bin''))
         (if dns then [''ping'', ''traceroute'']
          else [''ping'', ''traceroute'', ''nslookup'', ''dig'', ''host'']))"
  by (simp add: get_unsupported_tools_run trace_def)



lemma example_container_launch:
  "result (run_local_command example_runner example_remote container_args Map.empty 40001
             \<lparr>port = 40000\<rparr> example_state) = Inl (UnboundLocalError ''p'')"
  "trace (run_local_command example_runner example_remote container_args Map.empty 40001
             \<lparr>port = 40000\<rparr> example_state) =
     MakeTemp ''unsup_bin''
       # concat (map (tool_events ''/tmp/tel-1/unsup_bin'') [''ping'', ''traceroute''])
       @ [AddCleanup ''Terminate local process'' TerminateIfAlive]"
  unfolding run_local_command_def Let_def
  by (simp_all add: run_seq run_calls get_unsupported_tools_parts get_unsupported_tools_trace
        container_args_def example_runner_fields)



text \<open>
  C9, as the code has it. For a method other than \<open>inject-tcp\<close> and \<open>vpn-tcp\<close>,
  \<open>run_local_command\<close> never returns a process: it raises, and it spawns nothing. With
  the search path set it gets as far as its last line: it registers the cleanup
  "Terminate local process" and then raises \<open>UnboundLocalError\<close> on \<open>return p\<close>; the
  registration is the last event of the run.
\<close>

theorem other_methods_raise_at_return:
  assumes "method args \<noteq> ''inject-tcp''" and "method args \<noteq> ''vpn-tcp''"
  shows "(\<exists>e. result (run_local_command r remote args env_overrides socks_port ssh s) = Inl e)
     \<and> (\<forall>e\<in>set (trace (run_local_command r remote args env_overrides socks_port ssh s)).
           \<not> is_spawn e)
     \<and> ((environ r ++ env_overrides) ''PATH'' \<noteq> None \<longrightarrow>
          result (run_local_command r remote args env_overrides socks_port ssh s)
            = Inl (UnboundLocalError ''p'')
          \<and> (\<exists>before. trace (run_local_command r remote args env_overrides socks_port ssh s)
                = before @ [AddCleanup ''Terminate local process'' TerminateIfAlive]))"
  using assms get_unsupported_tools_plain[of r True s]
  unfolding run_local_command_def Let_def
  by (auto simp: run_seq run_calls get_unsupported_tools_parts is_spawn_def
        split: option.splits)

theorem other_methods_raise_at_return_witness:
  "method container_args \<noteq> ''inject-tcp'' \<and> method container_args \<noteq> ''vpn-tcp''
   \<and> (environ example_runner ++ Map.empty) ''PATH'' \<noteq> None
   \<and> result (run_local_command example_runner example_remote container_args Map.empty 40001
               \<lparr>port = 40000\<rparr> example_state) = Inl (UnboundLocalError ''p'')
   \<and> MakeTemp ''unsup_bin''
        \<in> set (trace (run_local_command example_runner example_remote container_args Map.empty
                        40001 \<lparr>port = 40000\<rparr> example_state))"
proof -
  have h: "method container_args \<noteq> ''inject-tcp''" "method container_args \<noteq> ''vpn-tcp''"
    by (simp_all add: container_args_def)
  have p: "(environ example_runner ++ Map.empty) ''PATH'' \<noteq> None"
       "MakeTemp ''unsup_bin''
        \<in> set (trace (run_local_command example_runner example_remote container_args Map.empty
                        40001 \<lparr>port = 40000\<rparr> example_state))"
    by (simp_all add: example_runner_fields example_container_launch)
  from other_methods_raise_at_return[OF h, where r = example_runner
         and env_overrides = Map.empty and remote = example_remote and socks_port = 40001
         and ssh = "\<lparr>port = 40000\<rparr>" and s = example_state] h p
  show ?thesis by blast
qed

text \<open>
  The claim as worded fails on the container method: the run ends with the error, and
  the cleanup has been registered in it.
\<close>

theorem cleanup_registered_before_error_counterexample:
  "method container_args = ''container''
   \<and> result (run_local_command example_runner example_remote container_args Map.empty 40001
               \<lparr>port = 40000\<rparr> example_state) = Inl (UnboundLocalError ''p'')
   \<and> AddCleanup ''Terminate local process'' TerminateIfAlive
        \<in> set (trace (run_local_command example_runner example_remote container_args Map.empty
                        40001 \<lparr>port = 40000\<rparr> example_state))"
proof -
  have "method container_args = ''container''"
    by (simp add: container_args_def)
  then show ?thesis
    by (simp add: example_container_launch)
qed

end
